theory Spec2Isabelle
  imports Main "HOL-Library.Char_ord" "HOL-Library.List_Lexorder"
begin

section \<open>Python strings\<close>

text \<open>
  Strings are modelled as \<^typ>\<open>string\<close>; a character is one code point below 256.
  The helpers below follow the Python built-ins the sources call.
\<close>

definition startswith :: "string \<Rightarrow> string \<Rightarrow> bool" where
  "startswith s p = (take (length p) s = p)"

definition endswith :: "string \<Rightarrow> string \<Rightarrow> bool" where
  "endswith s p = (length p \<le> length s \<and> drop (length s - length p) s = p)"

text \<open>\<open>sub in s\<close>: \<open>sub\<close> occurs in \<open>s\<close> as a contiguous run.\<close>

fun contains :: "string \<Rightarrow> string \<Rightarrow> bool" where
  "contains sub [] = (sub = [])"
| "contains sub (c # cs) = (startswith (c # cs) sub \<or> contains sub cs)"

text \<open>\<open>str.isspace\<close> on one character (code points below 256).\<close>

definition py_isspace :: "char \<Rightarrow> bool" where
  "py_isspace c = (of_char c \<in> {9, 10, 11, 12, 13, 28, 29, 30, 31, 32, 133, 160 :: nat})"

definition strip :: "string \<Rightarrow> string" where
  "strip s = rev (dropWhile py_isspace (rev (dropWhile py_isspace s)))"

definition rstrip_slash :: "string \<Rightarrow> string" where
  "rstrip_slash s = rev (dropWhile (\<lambda>c. c = CHR ''/'') (rev s))"

definition lstrip_slash :: "string \<Rightarrow> string" where
  "lstrip_slash s = dropWhile (\<lambda>c. c = CHR ''/'') s"

text \<open>\<open>str.splitlines\<close>: line boundaries are \<open>\n\<close>, \<open>\r\<close>, \<open>\r\n\<close>, \<open>\v\<close>, \<open>\f\<close>,
  \<open>\x1c\<close>, \<open>\x1d\<close>, \<open>\x1e\<close> and \<open>\x85\<close>; no empty last line is produced.\<close>

definition is_linebreak :: "char \<Rightarrow> bool" where
  "is_linebreak c = (of_char c \<in> {10, 11, 12, 13, 28, 29, 30, 133 :: nat})"

fun splitlines_acc :: "string \<Rightarrow> string \<Rightarrow> string list" where
  "splitlines_acc cur [] = (if cur = [] then [] else [rev cur])"
| "splitlines_acc cur (c # cs) =
     (if is_linebreak c then
        (if of_char c = (13 :: nat) \<and> cs \<noteq> [] \<and> of_char (hd cs) = (10 :: nat)
         then rev cur # splitlines_acc [] (tl cs)
         else rev cur # splitlines_acc [] cs)
      else splitlines_acc (c # cur) cs)"

definition splitlines :: "string \<Rightarrow> string list" where
  "splitlines s = splitlines_acc [] s"

text \<open>\<open>s.partition(" ")\<close>: the text before the first space, the separator found,
  and the text after it; without a space the whole string and two empty strings.\<close>

definition partition_space :: "string \<Rightarrow> string \<times> string \<times> string" where
  "partition_space s =
     (if CHR '' '' \<in> set s
      then (takeWhile (\<lambda>c. c \<noteq> CHR '' '') s, '' '', tl (dropWhile (\<lambda>c. c \<noteq> CHR '' '') s))
      else (s, [], []))"

section \<open>Drift diff engine: classification of itemized output (core/diff.py)\<close>

text \<open>The loop body of \<open>DiffService._rsync_diff\<close>; the state is
  \<open>(created, modified, deleted, detail_lines)\<close>.\<close>

fun diff_line :: "string \<Rightarrow> nat \<times> nat \<times> nat \<times> string list \<Rightarrow> nat \<times> nat \<times> nat \<times> string list" where
  "diff_line ln (created, modified, deleted, detail_lines) =
     (if strip ln = [] then (created, modified, deleted, detail_lines)
      else if startswith ln ''*deleting '' then
        (created, modified, deleted + 1, detail_lines @ [''DEL '' @ drop (length ''*deleting '') ln])
      else
        (case partition_space ln of (item, sep, path) \<Rightarrow>
           if path = [] then (created, modified, deleted, detail_lines)
           else if contains ''+++++++++'' item then
             (created + 1, modified, deleted, detail_lines @ [''ADD '' @ path])
           else
             (created, modified + 1, deleted, detail_lines @ [''MOD '' @ path])))"

definition diff_parse :: "string \<Rightarrow> nat \<times> nat \<times> nat \<times> string list" where
  "diff_parse out = fold diff_line (splitlines out) (0, 0, 0, [])"

section \<open>Exceptions, command results and the execution environment\<close>

text \<open>
  A Python exception is its class and its message. \<open>RuntimeError\<close> is kept apart from
  the other subclasses of \<open>Exception\<close> because \<open>_check_clean_target\<close> re-raises the first
  and swallows the rest. The message is a value, one constructor for each message text
  the sources build; \<open>Raised\<close> is the text of an exception coming from outside
  (the operating system, the SSH library).
\<close>

datatype exn_class = RuntimeError | ValueError | TypeError | IndexError | AttributeError | OSError

datatype msg =
    EnvNotConfigured string
  | TargetDirty string "string list"
  | TargetDirtyAborted string "string list"
  | NotGitRepo string string
  | CommandFailed string string
  | BackupFailed string
  | RestoreFailed string
  | SyncFailed string
  | DiffFailed string
  | DecryptFailed msg
  | BadValue
  | Raised string

datatype exn = Exn exn_class msg

fun is_runtime_error :: "exn \<Rightarrow> bool" where
  "is_runtime_error (Exn c m) = (c = RuntimeError)"

fun str_of_exn :: "exn \<Rightarrow> msg" where
  "str_of_exn (Exn c m) = m"

text \<open>\<open>CommandResult\<close> of utils/ssh.py; \<open>subprocess.CompletedProcess\<close> has the same
  three fields (\<open>returncode\<close>, \<open>stdout\<close>, \<open>stderr\<close>).\<close>

record CommandResult =
  code :: int
  stdout :: string
  stderr :: string

definition check_ok :: "CommandResult \<Rightarrow> string \<Rightarrow> exn + CommandResult" where
  "check_ok res context =
     (if code res \<noteq> 0 then
        Inl (Exn RuntimeError (CommandFailed context
               (if strip (stderr res) \<noteq> [] then strip (stderr res) else stdout res)))
      else Inr res)"

text \<open>JSON values as \<open>json.loads\<close> returns them (arrays and non-integer numbers are
  left out: the records of this program hold none).\<close>

datatype json = JNull | JBool bool | JInt int | JStr string | JDict "(string \<times> json) list"

text \<open>The content of a file: a JSON document, kept as the value it parses to, or any
  other text, on which \<open>json.loads\<close> raises.\<close>

datatype filedata = JsonDoc json | PlainText string

definition json_loads :: "filedata \<Rightarrow> exn + json" where
  "json_loads d = (case d of JsonDoc j \<Rightarrow> Inr j | PlainText t \<Rightarrow> Inl (Exn ValueError (Raised t)))"

text \<open>\<open>EnvEntry\<close> (core/config.py) and \<open>EnvContext\<close> (utils/envs.py).\<close>

record EnvEntry =
  entry_type :: string
  entry_path :: string
  entry_host :: "string option"
  entry_user :: "string option"

record EnvContext =
  ctx_name :: string
  ctx_entry :: EnvEntry

type_synonym config = "string \<Rightarrow> EnvEntry option"

definition is_remote :: "EnvContext \<Rightarrow> bool" where
  "is_remote ctx = (entry_host (ctx_entry ctx) \<notin> {None, Some [], Some ''localhost'', Some ''127.0.0.1''})"

definition user_prefix :: "EnvContext \<Rightarrow> string" where
  "user_prefix ctx =
     (case entry_user (ctx_entry ctx) of None \<Rightarrow> []
      | Some u \<Rightarrow> if u = [] then [] else u @ ''@'')"

definition display :: "EnvContext \<Rightarrow> string" where
  "display ctx =
     (if is_remote ctx
      then user_prefix ctx @ the (entry_host (ctx_entry ctx)) @ '':'' @ entry_path (ctx_entry ctx)
      else entry_path (ctx_entry ctx))"

definition rsync_spec :: "EnvContext \<Rightarrow> string" where
  "rsync_spec ctx =
     (let path = rstrip_slash (entry_path (ctx_entry ctx)) @ ''/''
      in if is_remote ctx
         then user_prefix ctx @ the (entry_host (ctx_entry ctx)) @ '':'' @ path
         else path)"

text \<open>The shell commands the sources send through \<open>ctx.client.run\<close>, by the command
  line each stands for (\<open>p\<close> is the environment's path):
  \<^item> \<open>Git p a\<close>: \<open>git -C p a\<close>, with \<open>a\<close> one of the argument strings of utils/git.py;
  \<^item> \<open>GitAddAll p\<close>: \<open>git add -A\<close> run in \<open>p\<close>; \<open>GitCommit p m\<close>: \<open>git commit -m "m"\<close> run in \<open>p\<close>;
  \<^item> \<open>LsLa d\<close>: \<open>ls -la d 2>/dev/null | head -100\<close>;
  \<^item> \<open>TestFile d m\<close>: \<open>[ -f d/m ] && echo found\<close>;
  \<^item> \<open>FindSubdirs d\<close>: \<open>find d -maxdepth 1 -type d -not -name '.*' 2>/dev/null | tail -20\<close>;
  \<^item> \<open>FindDepth2 d\<close>: \<open>find d -maxdepth 2 -type d 2>/dev/null | head -50\<close>.\<close>

datatype git_args =
    RevParseIsInsideWorkTree
  | RevParseAbbrevRefHead
  | RevParseHead
  | RevParseUpstream
  | RevListLeftRightCount
  | StatusPorcelain
  | ResetHard string

datatype command =
    Git string git_args
  | GitAddAll string
  | GitCommit string string
  | LsLa string
  | TestFile string string
  | FindSubdirs string
  | FindDepth2 string

text \<open>\<open>ProjectComponent\<close> and \<open>ProjectStructure\<close> (core/scanner.py).\<close>

record ProjectComponent =
  comp_path :: string
  comp_type :: string
  marker_files :: "string list"
  code_dirs :: "string list"
  non_code_dirs :: "string list"

record ProjectStructure =
  root_path :: string
  struct_env_name :: string
  components :: "ProjectComponent list"
  all_code_dirs :: "string set"
  all_non_code_dirs :: "string set"
  scan_time :: string

text \<open>
  Everything outside the program is reached through the operations of \<open>sys\<close>, each a
  function of the state \<open>'w\<close> of the outside world returning its result (or the
  exception it raises) and the new state: running a shell command for an environment
  (\<open>SSHClientWrapper.run\<close>), \<open>subprocess.run\<close> on an argument list, the \<open>pathlib\<close> and
  \<open>shutil\<close> calls, \<open>time.strftime\<close> with a format, and \<open>str()\<close> of a value that is not a
  string. The scan cache of core/scanner.py is reached through two operations as well:
  \<open>load_cache env\<close> is \<open>ProjectScanner._load_cache\<close> (the structure stored for \<open>env\<close> when
  its cache file exists, is younger than an hour and parses; it catches what it raises) and
  \<open>save_cache env structure\<close> is \<open>ProjectScanner._save_cache\<close>.
\<close>

record 'w sys =
  home :: string
  client_run :: "EnvEntry \<Rightarrow> command \<Rightarrow> 'w \<Rightarrow> (exn + CommandResult) \<times> 'w"
  subprocess_run :: "string list \<Rightarrow> 'w \<Rightarrow> (exn + CommandResult) \<times> 'w"
  mkdir :: "string \<Rightarrow> 'w \<Rightarrow> (exn + unit) \<times> 'w"
  write_text :: "string \<Rightarrow> filedata \<Rightarrow> 'w \<Rightarrow> (exn + unit) \<times> 'w"
  read_text :: "string \<Rightarrow> 'w \<Rightarrow> (exn + filedata) \<times> 'w"
  glob :: "string \<Rightarrow> string \<Rightarrow> 'w \<Rightarrow> string list \<times> 'w"
  path_exists :: "string \<Rightarrow> 'w \<Rightarrow> bool \<times> 'w"
  rmtree :: "string \<Rightarrow> 'w \<Rightarrow> (exn + unit) \<times> 'w"
  unlink :: "string \<Rightarrow> 'w \<Rightarrow> (exn + unit) \<times> 'w"
  strftime :: "string \<Rightarrow> 'w \<Rightarrow> string \<times> 'w"
  load_cache :: "string \<Rightarrow> 'w \<Rightarrow> ProjectStructure option \<times> 'w"
  save_cache :: "string \<Rightarrow> ProjectStructure \<Rightarrow> 'w \<Rightarrow> (exn + unit) \<times> 'w"
  py_repr :: "json \<Rightarrow> string"

text \<open>Sequencing with exceptions: \<open>bindx m f\<close> runs \<open>m\<close>, and \<open>f\<close> on its result unless
  \<open>m\<close> raised.\<close>

type_synonym ('a, 'w) io = "'w \<Rightarrow> (exn + 'a) \<times> 'w"

definition ret :: "'a \<Rightarrow> ('a, 'w) io" where
  "ret x = (\<lambda>w. (Inr x, w))"

definition throw :: "exn \<Rightarrow> ('a, 'w) io" where
  "throw e = (\<lambda>w. (Inl e, w))"

definition bindx :: "('a, 'w) io \<Rightarrow> ('a \<Rightarrow> ('b, 'w) io) \<Rightarrow> ('b, 'w) io" where
  "bindx m f = (\<lambda>w. case m w of (Inl e, w') \<Rightarrow> (Inl e, w') | (Inr x, w') \<Rightarrow> f x w')"

definition lift :: "exn + 'a \<Rightarrow> ('a, 'w) io" where
  "lift r = (\<lambda>w. (r, w))"

section \<open>Version control provider (utils/git.py)\<close>

definition git :: "'w sys \<Rightarrow> EnvContext \<Rightarrow> git_args \<Rightarrow> (CommandResult, 'w) io" where
  "git S ctx args = client_run S (ctx_entry ctx) (Git (entry_path (ctx_entry ctx)) args)"

definition ensure_repo :: "'w sys \<Rightarrow> EnvContext \<Rightarrow> (unit, 'w) io" where
  "ensure_repo S ctx =
     bindx (git S ctx RevParseIsInsideWorkTree) (\<lambda>res.
       if code res \<noteq> 0 \<or> \<not> contains ''true'' (stdout res)
       then throw (Exn RuntimeError (NotGitRepo (ctx_name ctx) (entry_path (ctx_entry ctx))))
       else ret ())"

definition current_branch :: "'w sys \<Rightarrow> EnvContext \<Rightarrow> (string, 'w) io" where
  "current_branch S ctx =
     bindx (git S ctx RevParseAbbrevRefHead) (\<lambda>res.
     bindx (lift (check_ok res (ctx_name ctx))) (\<lambda>res. ret (strip (stdout res))))"

definition head_commit :: "'w sys \<Rightarrow> EnvContext \<Rightarrow> (string, 'w) io" where
  "head_commit S ctx =
     bindx (git S ctx RevParseHead) (\<lambda>res.
     bindx (lift (check_ok res (ctx_name ctx))) (\<lambda>res. ret (strip (stdout res))))"

definition upstream :: "'w sys \<Rightarrow> EnvContext \<Rightarrow> (string option, 'w) io" where
  "upstream S ctx =
     bindx (git S ctx RevParseUpstream) (\<lambda>res.
       if code res \<noteq> 0 then ret None else ret (Some (strip (stdout res))))"

text \<open>\<open>str.split()\<close> on whitespace and \<open>int()\<close> of a token (an optional sign and
  decimal digits).\<close>

fun split_ws_acc :: "string \<Rightarrow> string \<Rightarrow> string list" where
  "split_ws_acc cur [] = (if cur = [] then [] else [rev cur])"
| "split_ws_acc cur (c # cs) =
     (if py_isspace c then (if cur = [] then split_ws_acc [] cs else rev cur # split_ws_acc [] cs)
      else split_ws_acc (c # cur) cs)"

definition split_ws :: "string \<Rightarrow> string list" where
  "split_ws s = split_ws_acc [] s"

definition digit_val :: "char \<Rightarrow> nat option" where
  "digit_val c = (let n = (of_char c :: nat) in if 48 \<le> n \<and> n \<le> 57 then Some (n - 48) else None)"

fun parse_nat_acc :: "nat \<Rightarrow> string \<Rightarrow> nat option" where
  "parse_nat_acc acc [] = Some acc"
| "parse_nat_acc acc (c # cs) =
     (case digit_val c of None \<Rightarrow> None | Some d \<Rightarrow> parse_nat_acc (10 * acc + d) cs)"

definition py_int :: "string \<Rightarrow> exn + int" where
  "py_int s =
     (let (neg, ds) = (case s of c # cs \<Rightarrow> if c = CHR ''-'' then (True, cs) else if c = CHR ''+'' then (False, cs) else (False, s)
                       | [] \<Rightarrow> (False, s))
      in if ds = [] then Inl (Exn ValueError BadValue)
         else case parse_nat_acc 0 ds of
                None \<Rightarrow> Inl (Exn ValueError BadValue)
              | Some n \<Rightarrow> Inr (if neg then - int n else int n))"

definition ahead_behind :: "'w sys \<Rightarrow> EnvContext \<Rightarrow> (int \<times> int, 'w) io" where
  "ahead_behind S ctx =
     bindx (upstream S ctx) (\<lambda>up.
       if up = None \<or> up = Some [] then ret (0, 0)
       else bindx (git S ctx RevListLeftRightCount) (\<lambda>res.
         if code res \<noteq> 0 then ret (0, 0)
         else (case split_ws (strip (stdout res)) of
                 [left, right] \<Rightarrow>
                   bindx (lift (py_int left)) (\<lambda>l. bindx (lift (py_int right)) (\<lambda>r. ret (l, r)))
               | _ \<Rightarrow> throw (Exn ValueError BadValue))))"

record GitStatus =
  branch :: string
  head :: string
  upstream_name :: "string option"
  ahead :: int
  behind :: int
  dirty :: bool
  staged :: nat
  changed :: nat
  untracked :: nat
  short_status :: "string list"

text \<open>The three counts of \<open>GitRepo.status\<close>. \<open>ln[1]\<close> is read only when \<open>ln[0]\<close> is a
  space, and raises \<open>IndexError\<close> on a line of length one.\<close>

definition count_changed :: "string list \<Rightarrow> exn + nat" where
  "count_changed lines =
     (if \<exists>ln \<in> set lines. hd ln = CHR '' '' \<and> length ln < 2
      then Inl (Exn IndexError BadValue)
      else Inr (length (filter (\<lambda>ln. hd ln = CHR '' '' \<and> ln ! 1 \<noteq> CHR ''?'') lines)))"

definition status :: "'w sys \<Rightarrow> EnvContext \<Rightarrow> (GitStatus, 'w) io" where
  "status S ctx =
     bindx (ensure_repo S ctx) (\<lambda>_.
     bindx (current_branch S ctx) (\<lambda>br.
     bindx (head_commit S ctx) (\<lambda>hd_rev.
     bindx (upstream S ctx) (\<lambda>up.
     bindx (ahead_behind S ctx) (\<lambda>(a, b).
     bindx (git S ctx StatusPorcelain) (\<lambda>res.
     bindx (lift (check_ok res (ctx_name ctx))) (\<lambda>res.
       let lines = filter (\<lambda>ln. ln \<noteq> []) (splitlines (stdout res));
           n_staged = length (filter (\<lambda>ln. hd ln \<noteq> CHR '' '' \<and> hd ln \<noteq> CHR ''?'') lines)
       in bindx (lift (count_changed lines)) (\<lambda>n_changed.
            ret \<lparr> branch = br, head = hd_rev, upstream_name = up, ahead = a, behind = b,
                  dirty = (lines \<noteq> []), staged = n_staged, changed = n_changed,
                  untracked = length (filter (\<lambda>ln. startswith ln ''??'') lines),
                  short_status = lines \<rparr>))))))))"

definition reset_hard :: "'w sys \<Rightarrow> EnvContext \<Rightarrow> string \<Rightarrow> (unit, 'w) io" where
  "reset_hard S ctx ref =
     bindx (git S ctx (ResetHard ref)) (\<lambda>res.
     bindx (lift (check_ok res (ctx_name ctx))) (\<lambda>_. ret ()))"

section \<open>Structure scanner (core/scanner.py)\<close>

definition PROJECT_MARKERS :: "(string \<times> string list) list" where
  "PROJECT_MARKERS =
     [(''python'', [''requirements.txt'', ''pyproject.toml'', ''setup.py'', ''Pipfile'', ''poetry.lock'']),
      (''node'', [''package.json'', ''package-lock.json'', ''yarn.lock'', ''pnpm-lock.yaml'']),
      (''go'', [''go.mod'', ''go.sum'']),
      (''rust'', [''Cargo.toml'', ''Cargo.lock'']),
      (''java'', [''pom.xml'', ''build.gradle'', ''build.gradle.kts'']),
      (''ruby'', [''Gemfile'', ''Gemfile.lock'']),
      (''php'', [''composer.json'', ''composer.lock''])]"

definition NON_CODE_DIRS :: "string list" where
  "NON_CODE_DIRS =
     [''__pycache__'', ''.pytest_cache'', ''.mypy_cache'', ''.ruff_cache'',
      ''.venv'', ''venv'', ''env'', ''.env'', ''virtualenv'',
      ''*.egg-info'', ''dist'', ''build'', ''.eggs'', ''*.egg'',
      ''.tox'', ''.nox'', ''htmlcov'', ''.coverage'',
      ''node_modules'', ''.npm'', ''.yarn'', ''.pnpm-store'',
      ''vendor'',
      ''target'',
      ''target'', ''.gradle'', ''.mvn'',
      ''.git'', ''.svn'', ''.hg'',
      ''.idea'', ''.vscode'', ''*.swp'',
      ''.DS_Store'', ''Thumbs.db'',
      ''logs'', ''log'', ''tmp'', ''temp'', ''cache'',
      ''.envsync'']"

definition is_non_code_dir :: "string \<Rightarrow> bool" where
  "is_non_code_dir name =
     (startswith name ''.'' \<or>
      (\<exists>pattern \<in> set NON_CODE_DIRS.
         if startswith pattern ''*'' then endswith name (tl pattern) else name = pattern))"

text \<open>\<open>Path(line).name\<close>: the last component of a path; \<open>line.replace(root, "")\<close>.\<close>

definition path_name :: "string \<Rightarrow> string" where
  "path_name s = rev (takeWhile (\<lambda>c. c \<noteq> CHR ''/'') (rev (rstrip_slash s)))"

function remove_all :: "string \<Rightarrow> string \<Rightarrow> string" where
  "remove_all pat s =
     (if pat = [] \<or> s = [] then s
      else if startswith s pat then remove_all pat (drop (length pat) s)
      else hd s # remove_all pat (tl s))"
  by pat_completeness auto
termination
  by (relation "measure (\<lambda>(pat, s). length s)") auto

definition full_path_of :: "EnvContext \<Rightarrow> string \<Rightarrow> string" where
  "full_path_of ctx rel_path = rstrip_slash (entry_path (ctx_entry ctx) @ ''/'' @ rel_path)"

definition join_rel :: "string \<Rightarrow> string \<Rightarrow> string" where
  "join_rel rel_path dir_name = lstrip_slash (rel_path @ ''/'' @ dir_name)"

text \<open>One marker test: \<open>[ -f full_path/marker ] && echo found\<close>, then \<open>"found" in check.stdout\<close>.\<close>

definition marker_found :: "'w sys \<Rightarrow> EnvContext \<Rightarrow> string \<Rightarrow> string \<Rightarrow> (bool, 'w) io" where
  "marker_found S ctx full_path marker =
     bindx (client_run S (ctx_entry ctx) (TestFile full_path marker)) (\<lambda>check.
       ret (contains ''found'' (stdout check)))"

text \<open>The marker files of a kind that are present, in the order of \<open>PROJECT_MARKERS\<close>.\<close>

fun present_markers :: "'w sys \<Rightarrow> EnvContext \<Rightarrow> string \<Rightarrow> string list \<Rightarrow> (string list, 'w) io" where
  "present_markers S ctx full_path [] = ret []"
| "present_markers S ctx full_path (marker # rest) =
     bindx (marker_found S ctx full_path marker) (\<lambda>found.
     bindx (present_markers S ctx full_path rest) (\<lambda>ms.
       ret (if found then marker # ms else ms)))"

text \<open>The loop of \<open>_analyze_component\<close> over the lines of the depth-2 listing.\<close>

fun classify_subdirs :: "EnvContext \<Rightarrow> string \<Rightarrow> string list \<Rightarrow>
    ProjectComponent \<times> ProjectStructure \<Rightarrow> ProjectComponent \<times> ProjectStructure" where
  "classify_subdirs ctx full_path [] cs = cs"
| "classify_subdirs ctx full_path (line # rest) (component, structure) =
     (if line = [] \<or> line = full_path then classify_subdirs ctx full_path rest (component, structure)
      else
        let dir_name = path_name line;
            sub_rel = lstrip_slash (remove_all (entry_path (ctx_entry ctx)) line)
        in if is_non_code_dir dir_name then
             classify_subdirs ctx full_path rest
               (component\<lparr>non_code_dirs := non_code_dirs component @ [dir_name]\<rparr>,
                structure\<lparr>all_non_code_dirs := insert sub_rel (all_non_code_dirs structure)\<rparr>)
           else
             classify_subdirs ctx full_path rest
               (component\<lparr>code_dirs := code_dirs component @ [dir_name]\<rparr>,
                structure\<lparr>all_code_dirs := insert sub_rel (all_code_dirs structure)\<rparr>))"

definition analyze_component :: "'w sys \<Rightarrow> EnvContext \<Rightarrow> string \<Rightarrow> string \<Rightarrow> ProjectStructure \<Rightarrow>
    (ProjectComponent \<times> ProjectStructure, 'w) io" where
  "analyze_component S ctx rel_path proj_type structure =
     (let full_path = full_path_of ctx rel_path in
      bindx (present_markers S ctx full_path
               (case map_of PROJECT_MARKERS proj_type of None \<Rightarrow> [] | Some ms \<Rightarrow> ms)) (\<lambda>found.
      bindx (client_run S (ctx_entry ctx) (FindDepth2 full_path)) (\<lambda>result.
        let component = \<lparr> comp_path = rel_path, comp_type = proj_type, marker_files = found,
                           code_dirs = [], non_code_dirs = [] \<rparr>;
            (component, structure) =
              (if code result = 0
               then classify_subdirs ctx full_path (splitlines (strip (stdout result))) (component, structure)
               else (component, structure));
            structure = (if rel_path \<noteq> []
                         then structure\<lparr>all_code_dirs := insert rel_path (all_code_dirs structure)\<rparr>
                         else structure)
        in ret (component, structure))))"

text \<open>The search of \<open>_scan_directory\<close> for a project marker: the kinds in the order of
  \<open>PROJECT_MARKERS\<close>, the markers of each kind in their order, one test per marker
  until the first that is found. The result is the kind of that marker.\<close>

definition marker_candidates :: "(string \<times> string) list" where
  "marker_candidates = concat (map (\<lambda>(proj_type, markers). map (\<lambda>m. (proj_type, m)) markers) PROJECT_MARKERS)"

fun first_marker :: "'w sys \<Rightarrow> EnvContext \<Rightarrow> string \<Rightarrow> (string \<times> string) list \<Rightarrow> (string option, 'w) io" where
  "first_marker S ctx full_path [] = ret None"
| "first_marker S ctx full_path ((proj_type, marker) # rest) =
     bindx (marker_found S ctx full_path marker) (\<lambda>found.
       if found then ret (Some proj_type) else first_marker S ctx full_path rest)"

text \<open>
  \<open>_scan_directory\<close> and its loop over the subdirectories. The recursive call is made
  at \<open>depth + 1\<close> and returns at once when that exceeds 5; the loop makes the test
  before the call, so that the recursion is bounded by the depth.
\<close>

function scan_directory :: "'w sys \<Rightarrow> EnvContext \<Rightarrow> string \<Rightarrow> ProjectStructure \<Rightarrow> nat \<Rightarrow>
    (ProjectStructure, 'w) io"
  and scan_subdirs :: "'w sys \<Rightarrow> EnvContext \<Rightarrow> string \<Rightarrow> string \<Rightarrow> string list \<Rightarrow>
    ProjectStructure \<Rightarrow> nat \<Rightarrow> (ProjectStructure, 'w) io" where
  "scan_directory S ctx rel_path structure depth w =
     (if depth > 5 then (Inr structure, w)
      else
        let full_path = full_path_of ctx rel_path in
        case client_run S (ctx_entry ctx) (LsLa full_path) w of
          (Inl e, w1) \<Rightarrow> (Inl e, w1)
        | (Inr result, w1) \<Rightarrow>
            if code result \<noteq> 0 then (Inr structure, w1)
            else
              (case first_marker S ctx full_path marker_candidates w1 of
                 (Inl e, w2) \<Rightarrow> (Inl e, w2)
               | (Inr (Some proj_type), w2) \<Rightarrow>
                   (case analyze_component S ctx rel_path proj_type structure w2 of
                      (Inl e, w3) \<Rightarrow> (Inl e, w3)
                    | (Inr (component, structure'), w3) \<Rightarrow>
                        (Inr (structure'\<lparr>components := components structure' @ [component]\<rparr>), w3))
               | (Inr None, w2) \<Rightarrow>
                   (case client_run S (ctx_entry ctx) (FindSubdirs full_path) w2 of
                      (Inl e, w3) \<Rightarrow> (Inl e, w3)
                    | (Inr result, w3) \<Rightarrow>
                        if code result \<noteq> 0 then (Inr structure, w3)
                        else scan_subdirs S ctx rel_path full_path
                               (splitlines (strip (stdout result))) structure depth w3)))"
| "scan_subdirs S ctx rel_path full_path [] structure depth w = (Inr structure, w)"
| "scan_subdirs S ctx rel_path full_path (line # rest) structure depth w =
     (if line = [] \<or> line = full_path then scan_subdirs S ctx rel_path full_path rest structure depth w
      else
        let dir_name = path_name line in
        if is_non_code_dir dir_name then
          scan_subdirs S ctx rel_path full_path rest
            (structure\<lparr>all_non_code_dirs := insert (join_rel rel_path dir_name) (all_non_code_dirs structure)\<rparr>)
            depth w
        else if depth + 1 > 5 then scan_subdirs S ctx rel_path full_path rest structure depth w
        else
          (case scan_directory S ctx (join_rel rel_path dir_name) structure (depth + 1) w of
             (Inl e, w1) \<Rightarrow> (Inl e, w1)
           | (Inr structure', w1) \<Rightarrow> scan_subdirs S ctx rel_path full_path rest structure' depth w1))"
  by pat_completeness auto
termination
  by (relation "inv_image (less_than <*lex*> less_than)
       (\<lambda>x. case x of
          Inl (S, ctx, rel_path, structure, depth, w) \<Rightarrow> (2 * (6 - depth) + 1, 0)
        | Inr (S, ctx, rel_path, full_path, lines, structure, depth, w) \<Rightarrow> (2 * (6 - depth), length lines))")
     auto

text \<open>\<open>ProjectStructure.get_rsync_excludes\<close> and \<open>ProjectScanner.scan\<close>.\<close>

definition get_rsync_excludes :: "ProjectStructure \<Rightarrow> string list" where
  "get_rsync_excludes structure =
     map (\<lambda>d. ''--exclude='' @ d) (sorted_list_of_set (all_non_code_dirs structure))"

definition ctx_of :: "config \<Rightarrow> string \<Rightarrow> exn + EnvContext" where
  "ctx_of cfg env =
     (case cfg env of
        None \<Rightarrow> Inl (Exn ValueError (EnvNotConfigured env))
      | Some e \<Rightarrow> Inr \<lparr> ctx_name = env, ctx_entry = e \<rparr>)"

definition scan :: "'w sys \<Rightarrow> config \<Rightarrow> string \<Rightarrow> bool \<Rightarrow> (ProjectStructure, 'w) io" where
  "scan S cfg env force =
     bindx (lift (ctx_of cfg env)) (\<lambda>ctx.
     bindx (\<lambda>w. if force then (Inr None, w) else (case load_cache S env w of (c, w') \<Rightarrow> (Inr c, w'))) (\<lambda>cached.
       case cached of
         Some structure \<Rightarrow> ret structure
       | None \<Rightarrow>
           bindx (scan_directory S ctx []
                    \<lparr> root_path = entry_path (ctx_entry ctx), struct_env_name = env, components = [],
                      all_code_dirs = {}, all_non_code_dirs = {}, scan_time = [] \<rparr> 0) (\<lambda>structure.
           bindx (\<lambda>w. case strftime S ''%Y-%m-%d %H:%M:%S'' w of (t, w') \<Rightarrow> (Inr t, w')) (\<lambda>t.
             let structure = structure\<lparr>scan_time := t\<rparr> in
             bindx (save_cache S env structure) (\<lambda>_. ret structure)))))"


declare scan_directory.simps [simp del]

section \<open>Shared transfer arguments (core/rsync\_config.py)\<close>

definition RSYNC_EXCLUDES :: "string list" where
  "RSYNC_EXCLUDES =
     [''--exclude=.git'', ''--exclude=.envsync'', ''--exclude=node_modules'',
      ''--exclude=__pycache__'', ''--exclude=*.pyc'', ''--exclude=*.pyo'',
      ''--exclude=.DS_Store'', ''--exclude=*.swp'', ''--exclude=.venv'', ''--exclude=venv'']"

definition RSYNC_GITIGNORE_FILTER :: string where
  "RSYNC_GITIGNORE_FILTER = ''--filter=:- .gitignore''"

definition build_rsync_args :: "bool \<Rightarrow> bool \<Rightarrow> bool \<Rightarrow> bool \<Rightarrow> bool \<Rightarrow> string list" where
  "build_rsync_args dry_run checksum delete progress itemize =
     [''rsync'', ''-a'' @ (if dry_run then ''n'' else []) @ ''z'']
     @ (if checksum then [''--checksum''] else [])
     @ (if delete then [''--delete''] else [])
     @ (if progress then [''--info=stats2,progress2''] else [])
     @ (if itemize then [''--itemize-changes''] else [])
     @ RSYNC_EXCLUDES @ [RSYNC_GITIGNORE_FILTER]"

text \<open>The exit codes every caller accepts: \<open>returncode not in (0, 23)\<close> is fatal.\<close>

definition rsync_fatal :: "CommandResult \<Rightarrow> bool" where
  "rsync_fatal proc = (code proc \<notin> {0, 23})"

definition stderr_or_stdout :: "CommandResult \<Rightarrow> string" where
  "stderr_or_stdout proc = (if stderr proc \<noteq> [] then stderr proc else stdout proc)"

section \<open>Checkpoints and safe synchronisation (core/safe\_sync.py)\<close>

text \<open>
  \<open>SyncCheckpoint\<close>. The constructor checks no types, and \<open>list_checkpoints\<close> builds
  checkpoints from whatever a metadata file holds, so each field is a JSON value.
\<close>

record SyncCheckpoint =
  timestamp :: json
  env_name :: json
  backup_path :: json
  git_commit :: json
  file_checksums :: json

definition to_dict :: "SyncCheckpoint \<Rightarrow> json" where
  "to_dict cp =
     JDict [(''timestamp'', timestamp cp), (''env_name'', env_name cp), (''backup_path'', backup_path cp),
            (''git_commit'', git_commit cp), (''file_checksums'', file_checksums cp)]"

text \<open>\<open>SyncCheckpoint(**data)\<close>: \<open>data\<close> must be a dictionary whose keys are field names
  and include the three fields without a default; anything else is a \<open>TypeError\<close>.\<close>

definition checkpoint_of_kwargs :: "json \<Rightarrow> exn + SyncCheckpoint" where
  "checkpoint_of_kwargs data =
     (case data of
        JDict kvs \<Rightarrow>
          if (\<forall>k \<in> set (map fst kvs). k \<in> set [''timestamp'', ''env_name'', ''backup_path'', ''git_commit'', ''file_checksums''])
             \<and> (\<forall>k \<in> set [''timestamp'', ''env_name'', ''backup_path'']. k \<in> set (map fst kvs))
          then Inr \<lparr> timestamp = the (map_of kvs ''timestamp''),
                     env_name = the (map_of kvs ''env_name''),
                     backup_path = the (map_of kvs ''backup_path''),
                     git_commit = (case map_of kvs ''git_commit'' of None \<Rightarrow> JNull | Some v \<Rightarrow> v),
                     file_checksums = (case map_of kvs ''file_checksums'' of None \<Rightarrow> JDict [] | Some v \<Rightarrow> v) \<rparr>
          else Inl (Exn TypeError BadValue)
      | _ \<Rightarrow> Inl (Exn TypeError BadValue))"

record SyncResult =
  success :: bool
  source :: string
  target :: string
  checkpoint :: "SyncCheckpoint option"
  files_synced :: nat
  files_deleted :: nat
  verified :: bool
  code_only :: bool
  components_synced :: "string list"
  error :: "msg option"

definition checkpoint_dir :: "'w sys \<Rightarrow> string" where
  "checkpoint_dir S = home S @ ''/.envsync/checkpoints''"

text \<open>
  \<open>str()\<close> of a value that is not a string is Python's \<open>repr\<close>: \<open>None\<close>, \<open>True\<close>, \<open>False\<close>,
  the decimal digits of an integer, a dictionary as \<open>{key: value, ...}\<close> with each key
  and each string value quoted (single quotes, or double quotes when the string has a
  single quote and no double quote; backslash, the quote and the characters that do
  not print are escaped).
\<close>

fun show_nat :: "nat \<Rightarrow> string" where
  "show_nat n = (if n < 10 then [char_of (48 + n)] else show_nat (n div 10) @ [char_of (48 + n mod 10)])"

definition show_int :: "int \<Rightarrow> string" where
  "show_int i = (if i < 0 then ''-'' @ show_nat (nat (- i)) else show_nat (nat i))"

definition hex_digit :: "nat \<Rightarrow> char" where
  "hex_digit d = (if d < 10 then char_of (48 + d) else char_of (87 + d))"

definition repr_char :: "char \<Rightarrow> char \<Rightarrow> string" where
  "repr_char q c =
     (let n = (of_char c :: nat) in
      if c = CHR 0x5C then [CHR 0x5C, CHR 0x5C]
      else if c = q then [CHR 0x5C, q]
      else if n = 10 then [CHR 0x5C, CHR ''n'']
      else if n = 13 then [CHR 0x5C, CHR ''r'']
      else if n = 9 then [CHR 0x5C, CHR ''t'']
      else if n < 32 \<or> (127 \<le> n \<and> n \<le> 160) \<or> n = 173
        then [CHR 0x5C, CHR ''x'', hex_digit (n div 16), hex_digit (n mod 16)]
      else [c])"

definition repr_str :: "string \<Rightarrow> string" where
  "repr_str s =
     (let q = (if CHR 0x27 \<in> set s \<and> CHR 0x22 \<notin> set s then CHR 0x22 else CHR 0x27)
      in [q] @ concat (map (repr_char q) s) @ [q])"

fun join_comma :: "string list \<Rightarrow> string" where
  "join_comma [] = []"
| "join_comma [x] = x"
| "join_comma (x # xs) = x @ '', '' @ join_comma xs"

fun python_repr :: "json \<Rightarrow> string" where
  "python_repr JNull = ''None''"
| "python_repr (JBool b) = (if b then ''True'' else ''False'')"
| "python_repr (JInt i) = show_int i"
| "python_repr (JStr s) = repr_str s"
| "python_repr (JDict kvs) =
     ''{'' @ join_comma (map (\<lambda>(k, v). repr_str k @ '': '' @ python_repr v) kvs) @ ''}''"

text \<open>Python values: truth, \<open>str()\<close> inside an f-string, and \<open><\<close> between two values
  (strings by code points, numbers with \<open>bool\<close> as 0 and 1; \<open>None\<close>, dictionaries and
  mixed pairs raise \<open>TypeError\<close>).\<close>

definition py_truthy :: "json \<Rightarrow> bool" where
  "py_truthy v =
     (case v of JNull \<Rightarrow> False | JBool b \<Rightarrow> b | JInt i \<Rightarrow> i \<noteq> 0 | JStr s \<Rightarrow> s \<noteq> [] | JDict kvs \<Rightarrow> kvs \<noteq> [])"

definition py_str :: "'w sys \<Rightarrow> json \<Rightarrow> string" where
  "py_str S v = (case v of JStr s \<Rightarrow> s | _ \<Rightarrow> py_repr S v)"

definition py_number :: "json \<Rightarrow> int option" where
  "py_number v = (case v of JInt i \<Rightarrow> Some i | JBool b \<Rightarrow> Some (if b then 1 else 0) | _ \<Rightarrow> None)"

definition py_lt :: "json \<Rightarrow> json \<Rightarrow> exn + bool" where
  "py_lt a b =
     (case (a, b) of
        (JStr s, JStr t) \<Rightarrow> Inr (s < t)
      | _ \<Rightarrow> (case (py_number a, py_number b) of
                (Some i, Some j) \<Rightarrow> Inr (i < j)
              | _ \<Rightarrow> Inl (Exn TypeError BadValue)))"

text \<open>
  \<open>sorted(checkpoints, key=lambda c: c.timestamp, reverse=True)\<close>: a stable sort into
  descending order of the keys, which raises when a comparison does. An element is
  placed before the first one that its key is not less than.
\<close>

fun insert_desc :: "SyncCheckpoint \<Rightarrow> SyncCheckpoint list \<Rightarrow> exn + SyncCheckpoint list" where
  "insert_desc c [] = Inr [c]"
| "insert_desc c (d # ds) =
     (case py_lt (timestamp c) (timestamp d) of
        Inl e \<Rightarrow> Inl e
      | Inr True \<Rightarrow> (case insert_desc c ds of Inl e \<Rightarrow> Inl e | Inr r \<Rightarrow> Inr (d # r))
      | Inr False \<Rightarrow> Inr (c # d # ds))"

fun sorted_desc :: "SyncCheckpoint list \<Rightarrow> exn + SyncCheckpoint list" where
  "sorted_desc [] = Inr []"
| "sorted_desc (c # cs) = (case sorted_desc cs of Inl e \<Rightarrow> Inl e | Inr r \<Rightarrow> insert_desc c r)"

text \<open>The loop of \<open>list_checkpoints\<close>: a file that cannot be read, parsed or turned
  into a checkpoint is skipped.\<close>

fun read_checkpoints :: "'w sys \<Rightarrow> string list \<Rightarrow> 'w \<Rightarrow> SyncCheckpoint list \<times> 'w" where
  "read_checkpoints S [] w = ([], w)"
| "read_checkpoints S (f # fs) w =
     (case bindx (read_text S f) (\<lambda>text. bindx (lift (json_loads text)) (\<lambda>data.
             lift (checkpoint_of_kwargs data))) w of
        (Inl e, w1) \<Rightarrow> read_checkpoints S fs w1
      | (Inr cp, w1) \<Rightarrow> (case read_checkpoints S fs w1 of (cps, w2) \<Rightarrow> (cp # cps, w2)))"

definition list_checkpoints :: "'w sys \<Rightarrow> string \<Rightarrow> (SyncCheckpoint list, 'w) io" where
  "list_checkpoints S env w =
     (case glob S (checkpoint_dir S) (''checkpoint-'' @ env @ ''-*.json'') w of
        (files, w1) \<Rightarrow>
          (case read_checkpoints S files w1 of
             (checkpoints, w2) \<Rightarrow> (sorted_desc checkpoints, w2)))"

text \<open>\<open>_find_checkpoint\<close>: the choice among the listed checkpoints, then the function.\<close>

definition select_checkpoint :: "SyncCheckpoint list \<Rightarrow> string option \<Rightarrow> SyncCheckpoint option" where
  "select_checkpoint checkpoints checkpoint_id =
     (if checkpoints = [] then None
      else case checkpoint_id of
             None \<Rightarrow> Some (hd checkpoints)
           | Some cid \<Rightarrow> find (\<lambda>cp. timestamp cp = JStr cid) checkpoints)"

definition find_checkpoint :: "'w sys \<Rightarrow> string \<Rightarrow> string option \<Rightarrow> (SyncCheckpoint option, 'w) io" where
  "find_checkpoint S env checkpoint_id =
     bindx (list_checkpoints S env) (\<lambda>checkpoints. ret (select_checkpoint checkpoints checkpoint_id))"

text \<open>\<open>checkpoints[keep:]\<close>: a negative \<open>keep\<close> counts from the end.\<close>

definition py_slice_from :: "int \<Rightarrow> 'a list \<Rightarrow> 'a list" where
  "py_slice_from k xs = (if k \<ge> 0 then drop (nat k) xs else drop (length xs - nat (- k)) xs)"

definition meta_file :: "'w sys \<Rightarrow> string \<Rightarrow> string \<Rightarrow> string" where
  "meta_file S env ts = checkpoint_dir S @ ''/'' @ ''checkpoint-'' @ env @ ''-'' @ ts @ ''.json''"

text \<open>The loop of \<open>cleanup_checkpoints\<close>; \<open>Path(cp.backup_path)\<close> raises \<open>TypeError\<close> on
  a path that is not a string.\<close>

fun remove_checkpoints :: "'w sys \<Rightarrow> string \<Rightarrow> SyncCheckpoint list \<Rightarrow> (unit, 'w) io" where
  "remove_checkpoints S env [] = ret ()"
| "remove_checkpoints S env (cp # cps) =
     bindx (lift (case backup_path cp of JStr p \<Rightarrow> Inr p | _ \<Rightarrow> Inl (Exn TypeError BadValue))) (\<lambda>p.
     bindx (\<lambda>w. case path_exists S p w of (b, w') \<Rightarrow> (Inr b, w')) (\<lambda>present.
     bindx (if present then rmtree S p else ret ()) (\<lambda>_.
     bindx (\<lambda>w. case path_exists S (meta_file S env (py_str S (timestamp cp))) w of (b, w') \<Rightarrow> (Inr b, w')) (\<lambda>present.
     bindx (if present then unlink S (meta_file S env (py_str S (timestamp cp))) else ret ()) (\<lambda>_.
       remove_checkpoints S env cps)))))"

definition cleanup_checkpoints :: "'w sys \<Rightarrow> string \<Rightarrow> int \<Rightarrow> (unit, 'w) io" where
  "cleanup_checkpoints S env keep =
     bindx (list_checkpoints S env) (\<lambda>checkpoints.
       remove_checkpoints S env (py_slice_from keep checkpoints))"

text \<open>\<open>_check_clean_target\<close>: a \<open>RuntimeError\<close> goes on to the caller, any other
  exception is taken to mean that the target is no repository.\<close>

definition check_clean_target :: "'w sys \<Rightarrow> EnvContext \<Rightarrow> (unit, 'w) io" where
  "check_clean_target S ctx w =
     (case bindx (ensure_repo S ctx) (\<lambda>_.
           bindx (status S ctx) (\<lambda>st.
             if dirty st
             then throw (Exn RuntimeError (TargetDirty (display ctx) (take 10 (short_status st))))
             else ret ())) w of
        (Inl e, w') \<Rightarrow> if is_runtime_error e then (Inl e, w') else (Inr (), w')
      | (Inr u, w') \<Rightarrow> (Inr (), w'))"

text \<open>\<open>_create_checkpoint\<close>. Reading the head revision is wrapped in
  \<open>try ... except Exception: pass\<close>.\<close>

definition capture_commit :: "'w sys \<Rightarrow> EnvContext \<Rightarrow> 'w \<Rightarrow> json \<times> 'w" where
  "capture_commit S ctx w =
     (case bindx (ensure_repo S ctx) (\<lambda>_. head_commit S ctx) w of
        (Inl e, w') \<Rightarrow> (JNull, w')
      | (Inr c, w') \<Rightarrow> (JStr c, w'))"

definition backup_cmd :: "EnvContext \<Rightarrow> string \<Rightarrow> string list" where
  "backup_cmd ctx backup_dir = [''rsync'', ''-az''] @ RSYNC_EXCLUDES @ [rsync_spec ctx, backup_dir @ ''/'']"

definition backup_dir_of :: "'w sys \<Rightarrow> string \<Rightarrow> string \<Rightarrow> string" where
  "backup_dir_of S env ts = checkpoint_dir S @ ''/'' @ ''backup-'' @ env @ ''-'' @ ts"

definition create_checkpoint :: "'w sys \<Rightarrow> EnvContext \<Rightarrow> (SyncCheckpoint, 'w) io" where
  "create_checkpoint S ctx =
     bindx (\<lambda>w. case strftime S ''%Y%m%d-%H%M%S'' w of (t, w') \<Rightarrow> (Inr t, w')) (\<lambda>ts.
       let backup_dir = backup_dir_of S (ctx_name ctx) ts in
       bindx (mkdir S backup_dir) (\<lambda>_.
       bindx (subprocess_run S (backup_cmd ctx backup_dir)) (\<lambda>proc.
         if rsync_fatal proc then throw (Exn RuntimeError (BackupFailed (stderr proc)))
         else
           bindx (\<lambda>w. case capture_commit S ctx w of (c, w') \<Rightarrow> (Inr c, w')) (\<lambda>commit.
             let cp = \<lparr> timestamp = JStr ts, env_name = JStr (ctx_name ctx),
                        backup_path = JStr backup_dir, git_commit = commit, file_checksums = JDict [] \<rparr>
             in bindx (write_text S (meta_file S (ctx_name ctx) ts) (JsonDoc (to_dict cp))) (\<lambda>_.
                  ret cp)))))"

text \<open>\<open>_do_sync\<close> and \<open>_verify_sync\<close>.\<close>

definition do_sync_cmd :: "EnvContext \<Rightarrow> EnvContext \<Rightarrow> bool \<Rightarrow> string list \<Rightarrow> string list" where
  "do_sync_cmd src dst checksum extra_excludes =
     build_rsync_args False checksum True True True @ extra_excludes @ [rsync_spec src, rsync_spec dst]"

definition count_synced :: "string list \<Rightarrow> nat \<times> nat" where
  "count_synced lines =
     (length (filter (\<lambda>ln. startswith ln ''>'' \<or> startswith ln ''<'') lines),
      length (filter (\<lambda>ln. \<not> (startswith ln ''>'' \<or> startswith ln ''<'') \<and> startswith ln ''*deleting'') lines))"

definition do_sync :: "'w sys \<Rightarrow> EnvContext \<Rightarrow> EnvContext \<Rightarrow> bool \<Rightarrow> string list \<Rightarrow> (nat \<times> nat, 'w) io" where
  "do_sync S src dst checksum extra_excludes =
     bindx (subprocess_run S (do_sync_cmd src dst checksum extra_excludes)) (\<lambda>proc.
       if rsync_fatal proc then throw (Exn RuntimeError (SyncFailed (stderr_or_stdout proc)))
       else ret (count_synced (splitlines (stdout proc))))"

definition verify_cmd :: "EnvContext \<Rightarrow> EnvContext \<Rightarrow> string list \<Rightarrow> string list" where
  "verify_cmd src dst extra_excludes =
     build_rsync_args True True True False True @ extra_excludes @ [rsync_spec src, rsync_spec dst]"

definition diff_lines :: "string \<Rightarrow> string list" where
  "diff_lines out = filter (\<lambda>ln. strip ln \<noteq> [] \<and> \<not> startswith ln ''building'') (splitlines out)"

definition verify_sync :: "'w sys \<Rightarrow> EnvContext \<Rightarrow> EnvContext \<Rightarrow> string list \<Rightarrow> (bool, 'w) io" where
  "verify_sync S src dst extra_excludes =
     bindx (subprocess_run S (verify_cmd src dst extra_excludes)) (\<lambda>proc.
       if rsync_fatal proc then ret False
       else ret (length (diff_lines (stdout proc)) = 0))"

text \<open>\<open>_auto_commit\<close> catches every exception; the results of the two commands are
  not looked at.\<close>

definition auto_commit_target :: "'w sys \<Rightarrow> EnvContext \<Rightarrow> string \<Rightarrow> 'w \<Rightarrow> unit \<times> 'w" where
  "auto_commit_target S ctx message w =
     (case bindx (ensure_repo S ctx) (\<lambda>_.
           bindx (status S ctx) (\<lambda>st.
             if dirty st then
               bindx (client_run S (ctx_entry ctx) (GitAddAll (entry_path (ctx_entry ctx)))) (\<lambda>_.
               bindx (client_run S (ctx_entry ctx) (GitCommit (entry_path (ctx_entry ctx)) message)) (\<lambda>_.
                 ret ()))
             else ret ())) w of
        (r, w') \<Rightarrow> ((), w'))"

text \<open>Step 0 of \<open>sync\<close>: the structure scan of the source, giving the extra excludes
  and the component kinds. The scanner's constructor creates its cache directory.\<close>

definition scan_step :: "'w sys \<Rightarrow> config \<Rightarrow> string \<Rightarrow> string list option \<Rightarrow> (string list \<times> string list, 'w) io" where
  "scan_step S cfg source_name comps =
     bindx (mkdir S (home S @ ''/.envsync/scans'')) (\<lambda>_.
     bindx (scan S cfg source_name False) (\<lambda>src_structure.
       let synced_components = map comp_type (components src_structure);
           synced_components =
             (case comps of
                None \<Rightarrow> synced_components
              | Some cs \<Rightarrow> if cs = [] then synced_components
                           else filter (\<lambda>t. t \<in> set cs) synced_components)
       in ret (get_rsync_excludes src_structure, synced_components)))"

text \<open>
  The body of the \<open>try\<close> block of \<open>sync\<close>: the three optional steps before the
  transfer, then the block. An exception leaves the block together with the value the
  variable \<open>checkpoint\<close> has at that moment, which the handler puts in the result.
\<close>

definition scan_if_code_only :: "'w sys \<Rightarrow> config \<Rightarrow> string \<Rightarrow> bool \<Rightarrow> string list option \<Rightarrow>
    (string list \<times> string list, 'w) io" where
  "scan_if_code_only S cfg source_name code_only_flag comps w =
     (if code_only_flag then scan_step S cfg source_name comps w else (Inr ([], []), w))"

definition check_if_safe :: "'w sys \<Rightarrow> string \<Rightarrow> EnvContext \<Rightarrow> (unit, 'w) io" where
  "check_if_safe S strategy ctx_dst w =
     (if strategy = ''safe'' then check_clean_target S ctx_dst w else (Inr (), w))"

definition checkpoint_if_backup :: "'w sys \<Rightarrow> bool \<Rightarrow> EnvContext \<Rightarrow> (SyncCheckpoint option, 'w) io" where
  "checkpoint_if_backup S backup ctx_dst w =
     (if backup
      then (case create_checkpoint S ctx_dst w of (Inl e, w') \<Rightarrow> (Inl e, w') | (Inr cp, w') \<Rightarrow> (Inr (Some cp), w'))
      else (Inr None, w))"

definition sync_try :: "'w sys \<Rightarrow> config \<Rightarrow> EnvContext \<Rightarrow> EnvContext \<Rightarrow> string \<Rightarrow> string \<Rightarrow> string \<Rightarrow>
    bool \<Rightarrow> bool \<Rightarrow> bool \<Rightarrow> bool \<Rightarrow> string list option \<Rightarrow> 'w \<Rightarrow>
    ((exn \<times> SyncCheckpoint option) + SyncResult) \<times> 'w" where
  "sync_try S cfg ctx_src ctx_dst source_name target_name strategy backup verify auto_commit code_only_flag comps w =
     (case scan_if_code_only S cfg source_name code_only_flag comps w of
        (Inl e, w0) \<Rightarrow> (Inl (e, None), w0)
      | (Inr (extra_excludes, synced_components), w0) \<Rightarrow>
     (case check_if_safe S strategy ctx_dst w0 of
        (Inl e, w1) \<Rightarrow> (Inl (e, None), w1)
      | (Inr u, w1) \<Rightarrow>
     (case checkpoint_if_backup S backup ctx_dst w1 of
        (Inl e, w2) \<Rightarrow> (Inl (e, None), w2)
      | (Inr cp, w2) \<Rightarrow>
     (case do_sync S ctx_src ctx_dst (strategy = ''safe'') extra_excludes w2 of
        (Inl e, w3) \<Rightarrow> (Inl (e, cp), w3)
      | (Inr (synced, deleted), w3) \<Rightarrow>
     (case (if verify then verify_sync S ctx_src ctx_dst extra_excludes w3 else (Inr False, w3)) of
        (Inl e, w4) \<Rightarrow> (Inl (e, cp), w4)
      | (Inr is_verified, w4) \<Rightarrow>
     (case (if auto_commit then auto_commit_target S ctx_dst (''Synced from '' @ source_name) w4 else ((), w4)) of
        (u, w5) \<Rightarrow>
          (Inr \<lparr> success = True, source = source_name, target = target_name, checkpoint = cp,
                 files_synced = synced, files_deleted = deleted, verified = is_verified,
                 code_only = code_only_flag, components_synced = synced_components, error = None \<rparr>,
           w5)))))))"

text \<open>\<open>SafeSyncService.sync\<close>: the two context lookups are made before the \<open>try\<close>
  block, so what they raise leaves \<open>sync\<close>.\<close>

definition sync :: "'w sys \<Rightarrow> config \<Rightarrow> string \<Rightarrow> string \<Rightarrow> string \<Rightarrow>
    bool \<Rightarrow> bool \<Rightarrow> bool \<Rightarrow> bool \<Rightarrow> string list option \<Rightarrow> (SyncResult, 'w) io" where
  "sync S cfg source_name target_name strategy backup verify auto_commit code_only_flag comps w =
     (case ctx_of cfg source_name of
        Inl e \<Rightarrow> (Inl e, w)
      | Inr ctx_src \<Rightarrow>
     (case ctx_of cfg target_name of
        Inl e \<Rightarrow> (Inl e, w)
      | Inr ctx_dst \<Rightarrow>
     (case sync_try S cfg ctx_src ctx_dst source_name target_name strategy backup verify auto_commit
             code_only_flag comps w of
        (Inl (e, cp), w') \<Rightarrow>
          (Inr \<lparr> success = False, source = source_name, target = target_name, checkpoint = cp,
                 files_synced = 0, files_deleted = 0, verified = False, code_only = False,
                 components_synced = [], error = Some (str_of_exn e) \<rparr>, w')
      | (Inr r, w') \<Rightarrow> (Inr r, w'))))"

text \<open>\<open>SafeSyncService.rollback\<close>. The lookup of the context and of the checkpoint
  come before the \<open>try\<close> block; the reset to the captured revision has a handler of
  its own.\<close>

definition restore_cmd :: "string \<Rightarrow> EnvContext \<Rightarrow> string list" where
  "restore_cmd backup ctx =
     [''rsync'', ''-az'', ''--delete''] @ RSYNC_EXCLUDES @ [rstrip_slash backup @ ''/'', rsync_spec ctx]"

definition restore_commit :: "'w sys \<Rightarrow> EnvContext \<Rightarrow> json \<Rightarrow> 'w \<Rightarrow> unit \<times> 'w" where
  "restore_commit S ctx commit w =
     (case commit of
        JStr c \<Rightarrow> (case reset_hard S ctx c w of (r, w') \<Rightarrow> ((), w'))
      | _ \<Rightarrow> ((), w))"

definition rollback_try :: "'w sys \<Rightarrow> EnvContext \<Rightarrow> SyncCheckpoint \<Rightarrow> (unit, 'w) io" where
  "rollback_try S ctx cp =
     bindx (lift (case backup_path cp of JStr p \<Rightarrow> Inr p | _ \<Rightarrow> Inl (Exn AttributeError BadValue))) (\<lambda>backup.
     bindx (subprocess_run S (restore_cmd backup ctx)) (\<lambda>proc.
       if rsync_fatal proc then throw (Exn RuntimeError (RestoreFailed (stderr proc)))
       else if py_truthy (git_commit cp)
         then (\<lambda>w. case restore_commit S ctx (git_commit cp) w of (u, w') \<Rightarrow> (Inr (), w'))
         else ret ()))"

definition rollback :: "'w sys \<Rightarrow> config \<Rightarrow> string \<Rightarrow> string option \<Rightarrow> (bool, 'w) io" where
  "rollback S cfg target_name checkpoint_id w =
     (case ctx_of cfg target_name of
        Inl e \<Rightarrow> (Inl e, w)
      | Inr ctx \<Rightarrow>
     (case find_checkpoint S target_name checkpoint_id w of
        (Inl e, w1) \<Rightarrow> (Inl e, w1)
      | (Inr None, w1) \<Rightarrow> (Inr False, w1)
      | (Inr (Some cp), w1) \<Rightarrow>
          (case rollback_try S ctx cp w1 of
             (Inl e, w2) \<Rightarrow> (Inr False, w2)
           | (Inr u, w2) \<Rightarrow> (Inr True, w2))))"

section \<open>The plain sync service\<close>

text \<open>
  \<open>SyncService._ensure_clean_target\<close> of \<open>core/sync.py\<close>, the same precondition in the
  service without checkpoints. Only a failure of \<open>ensure_repo\<close> counts as "not a
  repository"; what the status query raises leaves the function.
\<close>

definition git_repo :: "'w sys \<Rightarrow> EnvContext \<Rightarrow> 'w \<Rightarrow> bool \<times> 'w" where
  "git_repo S ctx w =
     (case ensure_repo S ctx w of (Inl e, w') \<Rightarrow> (False, w') | (Inr u, w') \<Rightarrow> (True, w'))"

definition ensure_clean_target :: "'w sys \<Rightarrow> EnvContext \<Rightarrow> (unit, 'w) io" where
  "ensure_clean_target S ctx w =
     (case git_repo S ctx w of
        (False, w') \<Rightarrow> (Inr (), w')
      | (True, w') \<Rightarrow>
          bindx (status S ctx) (\<lambda>st.
            if dirty st
            then throw (Exn RuntimeError (TargetDirtyAborted (display ctx) (take 20 (short_status st))))
            else ret ()) w')"

section \<open>Drift diff engine: the service (core/diff.py)\<close>

text \<open>A summary line is its label and its value: the three counts and the path of the
  report file.\<close>

datatype summary_line = Added nat | Modified nat | Deleted nat | ReportAt string

record DiffReport =
  env1 :: string
  env2 :: string
  has_diff :: bool
  summary_lines :: "summary_line list"
  output_path :: "string option"

definition diff_cmd :: "EnvContext \<Rightarrow> EnvContext \<Rightarrow> string list" where
  "diff_cmd src dst =
     build_rsync_args True True True False True @ [''--out-format=%i %f''] @ [rsync_spec src, rsync_spec dst]"

definition rsync_diff :: "'w sys \<Rightarrow> EnvContext \<Rightarrow> EnvContext \<Rightarrow> (string list \<times> (nat \<times> nat \<times> nat), 'w) io" where
  "rsync_diff S src dst =
     bindx (subprocess_run S (diff_cmd src dst)) (\<lambda>proc.
       if rsync_fatal proc then throw (Exn RuntimeError (DiffFailed (stderr_or_stdout proc)))
       else
         (case diff_parse (stdout proc) of
            (created, modified, deleted, detail_lines) \<Rightarrow>
              let summary_header = ''rsync dry-run diff '' @ display src @ '' -> '' @ display dst
              in ret (summary_header # replicate (length summary_header) CHR ''-'' # detail_lines,
                      (created, modified, deleted))))"

text \<open>\<open>"\n".join(lines)\<close>.\<close>

fun join_lines :: "string list \<Rightarrow> string" where
  "join_lines [] = []"
| "join_lines [l] = l"
| "join_lines (l # ls) = l @ [CHR 0x0A] @ join_lines ls"

definition compare :: "'w sys \<Rightarrow> config \<Rightarrow> string \<Rightarrow> string \<Rightarrow> (DiffReport, 'w) io" where
  "compare S cfg e1 e2 =
     bindx (lift (ctx_of cfg e1)) (\<lambda>ctx1.
     bindx (lift (ctx_of cfg e2)) (\<lambda>ctx2.
     bindx (mkdir S (home S @ ''/.envsync/reports'')) (\<lambda>_.
     bindx (\<lambda>w. case strftime S ''%Y%m%d-%H%M%S'' w of (t, w') \<Rightarrow> (Inr t, w')) (\<lambda>ts.
       let report_file = home S @ ''/.envsync/reports'' @ ''/'' @ ''diff-'' @ e1 @ ''-vs-'' @ e2 @ ''-'' @ ts @ ''.txt'' in
       bindx (rsync_diff S ctx1 ctx2) (\<lambda>(lines, (created, modified, deleted)).
         let any_diff = (created > 0 \<or> modified > 0 \<or> deleted > 0);
             summary = [Added created, Modified modified, Deleted deleted, ReportAt report_file]
         in bindx (write_text S report_file (PlainText (join_lines lines))) (\<lambda>_.
              ret \<lparr> env1 = e1, env2 = e2, has_diff = any_diff, summary_lines = summary,
                    output_path = Some report_file \<rparr>))))))"

text \<open>
  The classification as the specification words it, line by line: a deletion marker is
  a line that starts with \<open>*deleting \<close>; an itemize record is any other non-blank line
  with a path after its first space, and its code is the text before that space; a
  record is brand new when its code contains \<open>+++++++++\<close>.
\<close>

definition spec_is_deletion :: "string \<Rightarrow> bool" where
  "spec_is_deletion ln = startswith ln ''*deleting ''"

definition spec_is_record :: "string \<Rightarrow> bool" where
  "spec_is_record ln = (strip ln \<noteq> [] \<and> \<not> spec_is_deletion ln \<and> snd (snd (partition_space ln)) \<noteq> [])"

definition spec_is_created :: "string \<Rightarrow> bool" where
  "spec_is_created ln = (spec_is_record ln \<and> contains ''+++++++++'' (fst (partition_space ln)))"

definition spec_is_modified :: "string \<Rightarrow> bool" where
  "spec_is_modified ln = (spec_is_record ln \<and> \<not> contains ''+++++++++'' (fst (partition_space ln)))"

definition spec_created :: "string \<Rightarrow> nat" where
  "spec_created out = length (filter spec_is_created (splitlines out))"

definition spec_modified :: "string \<Rightarrow> nat" where
  "spec_modified out = length (filter spec_is_modified (splitlines out))"

definition spec_deleted :: "string \<Rightarrow> nat" where
  "spec_deleted out = length (filter spec_is_deletion (splitlines out))"

section \<open>Secrets (utils/crypto.py)\<close>

text \<open>
  \<open>SecretManager\<close> calls three libraries: Fernet, URL-safe base64 and the UTF-8 codec.
  They are parameters of the model: \<open>fernet_valid_key\<close> says whether \<open>Fernet(key)\<close>
  accepts a key, \<open>fernet_encrypt key n data\<close> is the token made from \<open>data\<close> (\<open>n\<close> stands
  for the time and the random bytes the library draws), and the decoders return the
  exception they raise. \<open>derive_key\<close> is the key \<open>_get_or_create_key\<close> derives from the
  machine when no key file exists. The state is the key file and the source of tokens.
\<close>

record crypto_lib =
  derive_key :: string
  fernet_valid_key :: "string \<Rightarrow> bool"
  fernet_encrypt :: "string \<Rightarrow> nat \<Rightarrow> string \<Rightarrow> string"
  fernet_decrypt :: "string \<Rightarrow> string \<Rightarrow> exn + string"
  b64encode :: "string \<Rightarrow> string"
  b64decode :: "string \<Rightarrow> exn + string"
  utf8_encode :: "string \<Rightarrow> exn + string"
  utf8_decode :: "string \<Rightarrow> exn + string"

record crypto_state =
  key_file :: "string option"
  draws :: nat

definition ENCRYPTED_PREFIX :: string where
  "ENCRYPTED_PREFIX = ''enc:v1:''"

definition get_or_create_key :: "crypto_lib \<Rightarrow> crypto_state \<Rightarrow> string \<times> crypto_state" where
  "get_or_create_key L st =
     (case key_file st of
        Some k \<Rightarrow> (k, st)
      | None \<Rightarrow> (derive_key L, st\<lparr>key_file := Some (derive_key L)\<rparr>))"

definition encrypt :: "crypto_lib \<Rightarrow> string \<Rightarrow> crypto_state \<Rightarrow> (exn + string) \<times> crypto_state" where
  "encrypt L plaintext st =
     (if plaintext = [] then (Inr [], st)
      else
        case get_or_create_key L st of (key, st1) \<Rightarrow>
          if \<not> fernet_valid_key L key then (Inl (Exn ValueError BadValue), st1)
          else
            (case utf8_encode L plaintext of
               Inl e \<Rightarrow> (Inl e, st1)
             | Inr data \<Rightarrow>
                 (Inr (ENCRYPTED_PREFIX @ b64encode L (fernet_encrypt L key (draws st1) data)),
                  st1\<lparr>draws := Suc (draws st1)\<rparr>)))"

definition decrypt :: "crypto_lib \<Rightarrow> string \<Rightarrow> crypto_state \<Rightarrow> (exn + string) \<times> crypto_state" where
  "decrypt L ciphertext st =
     (if ciphertext = [] then (Inr [], st)
      else
        let ciphertext = (if startswith ciphertext ENCRYPTED_PREFIX
                          then drop (length ENCRYPTED_PREFIX) ciphertext else ciphertext)
        in case get_or_create_key L st of (key, st1) \<Rightarrow>
          (case (if \<not> fernet_valid_key L key then Inl (Exn ValueError BadValue)
                 else case b64decode L ciphertext of
                        Inl e \<Rightarrow> Inl e
                      | Inr encrypted \<Rightarrow>
                          (case fernet_decrypt L key encrypted of
                             Inl e \<Rightarrow> Inl e
                           | Inr decrypted \<Rightarrow> utf8_decode L decrypted)) of
             Inl e \<Rightarrow> (Inl (Exn RuntimeError (DecryptFailed (str_of_exn e))), st1)
           | Inr plaintext \<Rightarrow> (Inr plaintext, st1)))"

definition is_encrypted :: "crypto_lib \<Rightarrow> string \<Rightarrow> bool" where
  "is_encrypted L text =
     (if text = [] then False
      else if startswith text ENCRYPTED_PREFIX then True
      else if startswith text ''<'' \<or> contains ''://'' (take 10 text) then False
      else case b64decode L text of
             Inl e \<Rightarrow> False
           | Inr raw \<Rightarrow> length text > 50 \<and> CHR ''='' \<in> set (drop (length text - 4) text))"

text \<open>What the round trip needs of the libraries: the derived key is accepted, a token
  decrypts under its key to the data it was made from, and both codecs invert.\<close>

definition lib_laws :: "crypto_lib \<Rightarrow> bool" where
  "lib_laws L =
     (fernet_valid_key L (derive_key L) \<and>
      (\<forall>k n m. fernet_valid_key L k \<longrightarrow> fernet_decrypt L k (fernet_encrypt L k n m) = Inr m) \<and>
      (\<forall>x. b64decode L (b64encode L x) = Inr x) \<and>
      (\<forall>p. \<exists>b. utf8_encode L p = Inr b \<and> utf8_decode L b = Inr p))"

definition key_usable :: "crypto_lib \<Rightarrow> crypto_state \<Rightarrow> bool" where
  "key_usable L st = (case key_file st of None \<Rightarrow> True | Some k \<Rightarrow> fernet_valid_key L k)"

text \<open>Libraries that leave every text as it is: the smallest instance of the laws.\<close>

definition plain_lib :: crypto_lib where
  "plain_lib =
     \<lparr> derive_key = ''k'', fernet_valid_key = (\<lambda>k. True),
       fernet_encrypt = (\<lambda>k n m. m), fernet_decrypt = (\<lambda>k c. Inr c),
       b64encode = (\<lambda>x. x), b64decode = (\<lambda>x. Inr x),
       utf8_encode = (\<lambda>p. Inr p), utf8_decode = (\<lambda>b. Inr b) \<rparr>"

definition no_key :: crypto_state where
  "no_key = \<lparr> key_file = None, draws = 0 \<rparr>"

section \<open>A scripted environment\<close>

text \<open>
  The simplest outside world: it has no state, every shell command and every process
  answers as a given function says, no file exists and no operation raises. It is the
  environment the theorems below are instantiated at.
\<close>

definition scripted :: "(command \<Rightarrow> CommandResult) \<Rightarrow> (string list \<Rightarrow> CommandResult) \<Rightarrow> unit sys" where
  "scripted shell proc =
     \<lparr> home = ''/home/u'',
       client_run = (\<lambda>e c w. (Inr (shell c), w)),
       subprocess_run = (\<lambda>args w. (Inr (proc args), w)),
       mkdir = (\<lambda>p w. (Inr (), w)),
       write_text = (\<lambda>p d w. (Inr (), w)),
       read_text = (\<lambda>p w. (Inl (Exn OSError (Raised p)), w)),
       glob = (\<lambda>d p w. ([], w)),
       path_exists = (\<lambda>p w. (False, w)),
       rmtree = (\<lambda>p w. (Inr (), w)),
       unlink = (\<lambda>p w. (Inr (), w)),
       strftime = (\<lambda>f w. (''20250101-000000'', w)),
       load_cache = (\<lambda>e w. (None, w)),
       save_cache = (\<lambda>e s w. (Inr (), w)),
       py_repr = python_repr \<rparr>"

definition local_entry :: "string \<Rightarrow> EnvEntry" where
  "local_entry p = \<lparr> entry_type = ''native'', entry_path = p, entry_host = None, entry_user = None \<rparr>"

definition two_envs :: config where
  "two_envs = [''a'' \<mapsto> local_entry ''/srv/a'', ''b'' \<mapsto> local_entry ''/srv/b'']"

definition ok_result :: "string \<Rightarrow> CommandResult" where
  "ok_result out = \<lparr> code = 0, stdout = out, stderr = [] \<rparr>"

definition failed_result :: "int \<Rightarrow> string \<Rightarrow> CommandResult" where
  "failed_result c err = \<lparr> code = c, stdout = [], stderr = err \<rparr>"

definition three_changes :: string where
  "three_changes = ''*deleting   old.txt'' @ [CHR 0x0A] @ ''>f+++++++++ new.txt'' @ [CHR 0x0A]
                   @ ''>fc.t...... mod.txt'' @ [CHR 0x0A]"

definition three_changes_report :: DiffReport where
  "three_changes_report =
     \<lparr> env1 = ''a'', env2 = ''b'', has_diff = True,
       summary_lines = [Added 1, Modified 1, Deleted 1,
          ReportAt ''/home/u/.envsync/reports/diff-a-vs-b-20250101-000000.txt''],
       output_path = Some ''/home/u/.envsync/reports/diff-a-vs-b-20250101-000000.txt'' \<rparr>"



definition ctx_a :: EnvContext where
  "ctx_a = \<lparr> ctx_name = ''a'', ctx_entry = local_entry ''/srv/a'' \<rparr>"

definition ctx_b :: EnvContext where
  "ctx_b = \<lparr> ctx_name = ''b'', ctx_entry = local_entry ''/srv/b'' \<rparr>"


text \<open>A target whose work tree has one modified file, and a transfer utility that
  copies into a backup directory but fails with exit code 12 on a transfer that
  itemizes its changes; one whose dry run with checksums prints a remaining
  difference; one whose dry run fails with exit code 12.\<close>

definition dirty_shell :: "command \<Rightarrow> CommandResult" where
  "dirty_shell c =
     (case c of
        Git p RevParseIsInsideWorkTree \<Rightarrow> ok_result (''true'' @ [CHR 0x0A])
      | Git p RevParseAbbrevRefHead \<Rightarrow> ok_result (''main'' @ [CHR 0x0A])
      | Git p RevParseHead \<Rightarrow> ok_result (''abc123'' @ [CHR 0x0A])
      | Git p RevParseUpstream \<Rightarrow> failed_result 128 ''no upstream''
      | Git p StatusPorcelain \<Rightarrow> ok_result ('' M app.py'' @ [CHR 0x0A])
      | _ \<Rightarrow> ok_result [])"

definition failing_transfer :: "string list \<Rightarrow> CommandResult" where
  "failing_transfer args =
     (if ''--itemize-changes'' \<in> set args then failed_result 12 ''io error'' else ok_result [])"

definition mismatch_transfer :: "string list \<Rightarrow> CommandResult" where
  "mismatch_transfer args =
     (if ''--checksum'' \<in> set args \<and> ''-anz'' \<in> set args
      then ok_result (''>fc.t...... app.py'' @ [CHR 0x0A]) else ok_result [])"

definition fatal_dry_run :: "string list \<Rightarrow> CommandResult" where
  "fatal_dry_run args =
     (if ''-anz'' \<in> set args then failed_result 12 ''io error'' else ok_result [])"

section \<open>A recording environment\<close>

text \<open>
  The same answers as the scripted environment, with the list of the operations that
  were run as the state of the world: what a function did outside the program is the
  list it leaves behind.
\<close>

datatype event =
    Shell command
  | Process "string list"
  | MadeDir string
  | WroteFile string
  | RemovedTree string
  | RemovedFile string

definition recording :: "(command \<Rightarrow> CommandResult) \<Rightarrow> (string list \<Rightarrow> CommandResult) \<Rightarrow> event list sys" where
  "recording shell proc =
     \<lparr> home = ''/home/u'',
       client_run = (\<lambda>e c w. (Inr (shell c), w @ [Shell c])),
       subprocess_run = (\<lambda>args w. (Inr (proc args), w @ [Process args])),
       mkdir = (\<lambda>p w. (Inr (), w @ [MadeDir p])),
       write_text = (\<lambda>p d w. (Inr (), w @ [WroteFile p])),
       read_text = (\<lambda>p w. (Inl (Exn OSError (Raised p)), w)),
       glob = (\<lambda>d p w. ([], w)),
       path_exists = (\<lambda>p w. (False, w)),
       rmtree = (\<lambda>p w. (Inr (), w @ [RemovedTree p])),
       unlink = (\<lambda>p w. (Inr (), w @ [RemovedFile p])),
       strftime = (\<lambda>f w. (''20250101-000000'', w)),
       load_cache = (\<lambda>e w. (None, w)),
       save_cache = (\<lambda>e s w. (Inr (), w)),
       py_repr = python_repr \<rparr>"

definition dirty_status :: GitStatus where
  "dirty_status =
     \<lparr> branch = ''main'', head = ''abc123'', upstream_name = None, ahead = 0, behind = 0,
       dirty = True, staged = 0, changed = 1, untracked = 0, short_status = ['' M app.py''] \<rparr>"

definition status_trace :: "event list" where
  "status_trace =
     [Shell (Git ''/srv/b'' RevParseIsInsideWorkTree),
      Shell (Git ''/srv/b'' RevParseIsInsideWorkTree),
      Shell (Git ''/srv/b'' RevParseAbbrevRefHead),
      Shell (Git ''/srv/b'' RevParseHead),
      Shell (Git ''/srv/b'' RevParseUpstream),
      Shell (Git ''/srv/b'' RevParseUpstream),
      Shell (Git ''/srv/b'' StatusPorcelain)]"

definition checkpoint_b :: SyncCheckpoint where
  "checkpoint_b =
     \<lparr> timestamp = JStr ''20250101-000000'', env_name = JStr ''b'',
       backup_path = JStr ''/home/u/.envsync/checkpoints/backup-b-20250101-000000'',
       git_commit = JStr ''abc123'', file_checksums = JDict [] \<rparr>"

definition checkpoint_trace :: "event list" where
  "checkpoint_trace =
     [MadeDir ''/home/u/.envsync/checkpoints/backup-b-20250101-000000'',
      Process (backup_cmd ctx_b ''/home/u/.envsync/checkpoints/backup-b-20250101-000000''),
      Shell (Git ''/srv/b'' RevParseIsInsideWorkTree),
      Shell (Git ''/srv/b'' RevParseHead),
      WroteFile ''/home/u/.envsync/checkpoints/checkpoint-b-20250101-000000.json'']"

text \<open>
  Two recording environments with a fault. In the first, the shell command that is sent
  when \<open>n\<close> operations have been run is not answered: running it raises \<open>OSError\<close> (a
  lost connection, a process that cannot be started), which is no \<open>RuntimeError\<close>; every
  other command is answered as before. In the second, a dry run of the transfer utility
  cannot be started.
\<close>

definition flaky_recording :: "nat \<Rightarrow> (command \<Rightarrow> CommandResult) \<Rightarrow> (string list \<Rightarrow> CommandResult) \<Rightarrow>
    event list sys" where
  "flaky_recording n shell proc =
     (recording shell proc)
       \<lparr>client_run := (\<lambda>e c w. if length w = n
                                then (Inl (Exn OSError (Raised ''connection reset'')), w @ [Shell c])
                                else (Inr (shell c), w @ [Shell c]))\<rparr>"

definition no_dry_run_recording :: "(command \<Rightarrow> CommandResult) \<Rightarrow> (string list \<Rightarrow> CommandResult) \<Rightarrow>
    event list sys" where
  "no_dry_run_recording shell proc =
     (recording shell proc)
       \<lparr>subprocess_run := (\<lambda>args w. if ''-anz'' \<in> set args
                                   then (Inl (Exn OSError (Raised ''rsync'')), w @ [Process args])
                                   else (Inr (proc args), w @ [Process args]))\<rparr>"

section \<open>A file-system environment\<close>

text \<open>
  The outside world the checkpoint manager works on, as far as its claims need it:
  the directory trees the transfer utility copies between (environments and backup
  directories, each a map from the relative path of a file, as the list of its
  components, to the content of the file), the regular files the program reads and
  writes (the metadata records, in the order the directory lists them), the git
  repositories of the environments, the clock, and the files of a tree that cannot be
  read. The transfer utility and git are outside the program; their model below
  follows their manuals for the options the checkpoint manager passes.
\<close>

type_synonym tree = "string list \<Rightarrow> string option"

record repo =
  repo_head :: string
  repo_commits :: "string \<Rightarrow> tree option"

record world =
  dirs :: "string \<Rightarrow> tree option"
  metas :: "(string \<times> filedata) list"
  repos :: "string \<Rightarrow> repo option"
  now :: string
  unreadable :: "(string \<times> string list) list"

text \<open>Exclude patterns: a pattern without a slash is matched against every component
  of a path, and an excluded directory hides what is below it; \<open>*\<close> occurs only at the
  start of the patterns of \<open>RSYNC_EXCLUDES\<close>.\<close>

definition exclude_patterns :: "string list \<Rightarrow> string list" where
  "exclude_patterns args =
     map (drop (length ''--exclude='')) (filter (\<lambda>a. startswith a ''--exclude='') args)"

definition pattern_matches :: "string \<Rightarrow> string \<Rightarrow> bool" where
  "pattern_matches pat name = (if startswith pat ''*'' then endswith name (tl pat) else name = pat)"

definition excluded :: "string list \<Rightarrow> string list \<Rightarrow> bool" where
  "excluded pats p = (\<exists>c \<in> set p. \<exists>pat \<in> set pats. pattern_matches pat c)"


text \<open>
  \<open>rsync -a[n]z [--delete] [--exclude=...] SRC/ DST/\<close>. Every file of the source that
  is not excluded and can be read is copied over the destination; with \<open>--delete\<close>, a
  file of the destination that is not excluded and is not in the source is removed,
  unless a file could not be read (the utility then skips all deletions); excluded
  paths of the destination are left alone. The exit code is 23 when a file could not
  be read or the source does not exist, else 0. With \<open>n\<close> among the flags nothing is
  changed. What the model leaves out: the other exit codes of the utility (a
  destination that does not exist is created, its parent is taken to exist), the
  output, and the quick check, by which the utility without \<open>--checksum\<close> skips a file
  whose size and modification time agree on both sides (the model copies it, which is
  the same when such files have the same content).
\<close>

definition rsync_tree :: "string list \<Rightarrow> bool \<Rightarrow> (string list \<Rightarrow> bool) \<Rightarrow> tree \<Rightarrow> tree \<Rightarrow> tree" where
  "rsync_tree pats delete bad s d =
     (\<lambda>p. if excluded pats p then d p
          else case s p of
                 Some c \<Rightarrow> if bad p then d p else Some c
               | None \<Rightarrow> if delete then None else d p)"

definition rsync_run :: "string list \<Rightarrow> world \<Rightarrow> (exn + CommandResult) \<times> world" where
  "rsync_run args w =
     (if length args < 3 \<or> hd args \<noteq> ''rsync'' then (Inl (Exn OSError (Raised (hd args))), w)
      else
        let src = rstrip_slash (args ! (length args - 2));
            dst = rstrip_slash (last args);
            pats = exclude_patterns args;
            dry_run = (CHR ''n'' \<in> set (args ! 1))
        in case dirs w src of
             None \<Rightarrow> (Inr \<lparr> code = 23, stdout = [], stderr = ''no such directory'' \<rparr>, w)
           | Some s \<Rightarrow>
               let d = (case dirs w dst of None \<Rightarrow> (\<lambda>p. None) | Some t \<Rightarrow> t);
                   bad = (\<lambda>p. (src, p) \<in> set (unreadable w));
                   failed = (\<exists>(l, p) \<in> set (unreadable w). l = src \<and> s p \<noteq> None \<and> \<not> excluded pats p);
                   d' = rsync_tree pats (''--delete'' \<in> set args \<and> \<not> failed) bad s d
               in (Inr \<lparr> code = (if failed then 23 else 0), stdout = [], stderr = [] \<rparr>,
                   if dry_run then w else w\<lparr>dirs := (dirs w)(dst \<mapsto> d')\<rparr>))"

text \<open>
  Git, for the three commands the checkpoint manager sends. \<open>reset --hard c\<close> makes
  every file of commit \<open>c\<close> have its committed content and removes the files of the
  old head commit that \<open>c\<close> does not have; other files stay. The remaining commands
  answer with an error.
\<close>

definition entry_location :: "EnvEntry \<Rightarrow> string" where
  "entry_location e = rstrip_slash (rsync_spec \<lparr> ctx_name = [], ctx_entry = e \<rparr>)"

definition reset_tree :: "tree \<Rightarrow> tree \<Rightarrow> tree \<Rightarrow> tree" where
  "reset_tree old_head new_head t =
     (\<lambda>p. case new_head p of
            Some c \<Rightarrow> Some c
          | None \<Rightarrow> if old_head p \<noteq> None then None else t p)"

definition git_run :: "EnvEntry \<Rightarrow> command \<Rightarrow> world \<Rightarrow> (exn + CommandResult) \<times> world" where
  "git_run e c w =
     (case c of
        Git p a \<Rightarrow>
          (case repos w (entry_location e) of
             None \<Rightarrow> (Inr (failed_result 128 ''not a git repository''), w)
           | Some r \<Rightarrow>
               (case a of
                  RevParseIsInsideWorkTree \<Rightarrow> (Inr (ok_result (''true'' @ [CHR 0x0A])), w)
                | RevParseHead \<Rightarrow> (Inr (ok_result (repo_head r @ [CHR 0x0A])), w)
                | ResetHard c \<Rightarrow>
                    (case repo_commits r c of
                       None \<Rightarrow> (Inr (failed_result 128 ''unknown revision''), w)
                     | Some snap \<Rightarrow>
                         let old = (case repo_commits r (repo_head r) of None \<Rightarrow> (\<lambda>p. None) | Some t \<Rightarrow> t);
                             t = (case dirs w (entry_location e) of None \<Rightarrow> (\<lambda>p. None) | Some t \<Rightarrow> t)
                         in (Inr (ok_result []),
                             w\<lparr>dirs := (dirs w)(entry_location e \<mapsto> reset_tree old snap t),
                               repos := (repos w)(entry_location e \<mapsto> r\<lparr>repo_head := c\<rparr>)\<rparr>))
                | _ \<Rightarrow> (Inr (failed_result 1 ''not modelled''), w)))
      | _ \<Rightarrow> (Inr (failed_result 1 ''not modelled''), w))"

text \<open>\<open>Path.glob\<close> on a pattern with \<open>*\<close> and \<open>?\<close> (character classes do not occur in
  the patterns of this program): the files directly in the directory whose name
  matches.\<close>

fun glob_match :: "string \<Rightarrow> string \<Rightarrow> bool" where
  "glob_match [] s = (s = [])"
| "glob_match (p # ps) [] = (p = CHR ''*'' \<and> glob_match ps [])"
| "glob_match (p # ps) (c # cs) =
     (if p = CHR ''*'' then glob_match ps (c # cs) \<or> glob_match (p # ps) cs
      else (p = CHR ''?'' \<or> p = c) \<and> glob_match ps cs)"

definition in_directory :: "string \<Rightarrow> string \<Rightarrow> string option" where
  "in_directory d f =
     (if startswith f (d @ ''/'') \<and> CHR ''/'' \<notin> set (drop (length d + 1) f)
      then Some (drop (length d + 1) f) else None)"

definition glob_files :: "string \<Rightarrow> string \<Rightarrow> world \<Rightarrow> string list" where
  "glob_files d pat w =
     filter (\<lambda>f. case in_directory d f of None \<Rightarrow> False | Some n \<Rightarrow> glob_match pat n) (map fst (metas w))"

definition fs_sys :: "(json \<Rightarrow> string) \<Rightarrow> world sys" where
  "fs_sys repr =
     \<lparr> home = ''/home/u'',
       client_run = git_run,
       subprocess_run = rsync_run,
       mkdir = (\<lambda>p w. (Inr (), case dirs w p of None \<Rightarrow> w\<lparr>dirs := (dirs w)(p \<mapsto> (\<lambda>q. None))\<rparr> | Some t \<Rightarrow> w)),
       write_text = (\<lambda>p d w. (Inr (),
          if p \<in> set (map fst (metas w))
          then w\<lparr>metas := map (\<lambda>(f, x). if f = p then (f, d) else (f, x)) (metas w)\<rparr>
          else w\<lparr>metas := metas w @ [(p, d)]\<rparr>)),
       read_text = (\<lambda>p w. (case map_of (metas w) p of None \<Rightarrow> Inl (Exn OSError (Raised p)) | Some d \<Rightarrow> Inr d, w)),
       glob = (\<lambda>d pat w. (glob_files d pat w, w)),
       path_exists = (\<lambda>p w. (dirs w p \<noteq> None \<or> p \<in> set (map fst (metas w)), w)),
       rmtree = (\<lambda>p w. if dirs w p = None then (Inl (Exn OSError (Raised p)), w)
                        else (Inr (), w\<lparr>dirs := (dirs w)(p := None)\<rparr>)),
       unlink = (\<lambda>p w. if p \<in> set (map fst (metas w))
                        then (Inr (), w\<lparr>metas := filter (\<lambda>(f, x). f \<noteq> p) (metas w)\<rparr>)
                        else (Inl (Exn OSError (Raised p)), w)),
       strftime = (\<lambda>f w. (now w, w)),
       load_cache = (\<lambda>e w. (None, w)),
       save_cache = (\<lambda>e s w. (Inr (), w)),
       py_repr = repr \<rparr>"

text \<open>The metadata record \<open>_create_checkpoint\<close> writes for an environment at a time.\<close>

definition meta_record :: "string \<Rightarrow> string \<Rightarrow> json \<Rightarrow> string \<times> filedata" where
  "meta_record env ts commit =
     (''/home/u/.envsync/checkpoints/checkpoint-'' @ env @ ''-'' @ ts @ ''.json'',
      JsonDoc (JDict [(''timestamp'', JStr ts), (''env_name'', JStr env),
                      (''backup_path'', JStr (''/home/u/.envsync/checkpoints/backup-'' @ env @ ''-'' @ ts)),
                      (''git_commit'', commit), (''file_checksums'', JDict [])]))"

text \<open>Environment \<open>b\<close> with one backup whose recorded revision the repository does not
  know.\<close>

definition restorable_world :: world where
  "restorable_world =
     \<lparr> dirs = [''/srv/b'' \<mapsto> [[''app.py''] \<mapsto> ''v2''],
               ''/home/u/.envsync/checkpoints/backup-b-20250101-000000'' \<mapsto> [[''app.py''] \<mapsto> ''v1'']],
       metas = [meta_record ''b'' ''20250101-000000'' (JStr ''gone'')],
       repos = [''/srv/b'' \<mapsto> \<lparr> repo_head = ''abc123'', repo_commits = [''abc123'' \<mapsto> [[''app.py''] \<mapsto> ''v0'']] \<rparr>],
       now = ''20250102-000000'', unreadable = [] \<rparr>"

definition checkpoint_gone :: SyncCheckpoint where
  "checkpoint_gone =
     \<lparr> timestamp = JStr ''20250101-000000'', env_name = JStr ''b'',
       backup_path = JStr ''/home/u/.envsync/checkpoints/backup-b-20250101-000000'',
       git_commit = JStr ''gone'', file_checksums = JDict [] \<rparr>"

text \<open>The same environment and record, the backup directory itself gone.\<close>

definition missing_backup_world :: world where
  "missing_backup_world =
     \<lparr> dirs = [''/srv/b'' \<mapsto> [[''app.py''] \<mapsto> ''v2'']],
       metas = [meta_record ''b'' ''20250101-000000'' JNull],
       repos = (\<lambda>p. None), now = ''20250102-000000'', unreadable = [] \<rparr>"

text \<open>Two metadata records of environment \<open>b\<close>, the older one written with its timestamp
  as a JSON number.\<close>

definition number_record :: "string \<times> filedata" where
  "number_record =
     (''/home/u/.envsync/checkpoints/checkpoint-b-20241231-000000.json'',
      JsonDoc (JDict [(''timestamp'', JInt 20241231), (''env_name'', JStr ''b''),
                      (''backup_path'', JStr ''/home/u/.envsync/checkpoints/backup-b-20241231-000000'')]))"

definition mistyped_world :: world where
  "mistyped_world =
     \<lparr> dirs = (\<lambda>p. None), metas = [number_record, meta_record ''b'' ''20250101-000000'' JNull],
       repos = (\<lambda>p. None), now = ''20250102-000000'', unreadable = [] \<rparr>"

text \<open>Two environments, \<open>b\<close> and \<open>b-2\<close>, each with one checkpoint; the one of \<open>b-2\<close> is the
  younger.\<close>

definition two_env_world :: world where
  "two_env_world =
     \<lparr> dirs = [''/home/u/.envsync/checkpoints/backup-b-20250101-000000'' \<mapsto> [[''app.py''] \<mapsto> ''v1''],
               ''/home/u/.envsync/checkpoints/backup-b-2-20250103-000000'' \<mapsto> [[''main.go''] \<mapsto> ''g1'']],
       metas = [meta_record ''b'' ''20250101-000000'' JNull, meta_record ''b-2'' ''20250103-000000'' JNull],
       repos = (\<lambda>p. None), now = ''20250104-000000'', unreadable = [] \<rparr>"

definition checkpoint_of_b2 :: SyncCheckpoint where
  "checkpoint_of_b2 =
     \<lparr> timestamp = JStr ''20250103-000000'', env_name = JStr ''b-2'',
       backup_path = JStr ''/home/u/.envsync/checkpoints/backup-b-2-20250103-000000'',
       git_commit = JNull, file_checksums = JDict [] \<rparr>"

definition checkpoint_of_b :: SyncCheckpoint where
  "checkpoint_of_b =
     \<lparr> timestamp = JStr ''20250101-000000'', env_name = JStr ''b'',
       backup_path = JStr ''/home/u/.envsync/checkpoints/backup-b-20250101-000000'',
       git_commit = JNull, file_checksums = JDict [] \<rparr>"


text \<open>The content of a file of an environment, and the state of the work tree the
  amended round trip asks for: the environment is no repository, or every file of
  its head revision has its committed content.\<close>

definition file_at :: "world \<Rightarrow> string \<Rightarrow> string list \<Rightarrow> string option" where
  "file_at w loc p = (case dirs w loc of None \<Rightarrow> None | Some t \<Rightarrow> t p)"







section \<open>Sequencing lemmas\<close>

lemma bindx_Inr: "m w = (Inr x, w') \<Longrightarrow> bindx m f w = f x w'"
  by (simp add: bindx_def)

lemma bindx_Inl: "m w = (Inl e, w') \<Longrightarrow> bindx m f w = (Inl e, w')"
  by (simp add: bindx_def)

lemma bindx_Inr_elim:
  assumes "bindx m f w = (Inr y, w')"
  obtains x w1 where "m w = (Inr x, w1)" and "f x w1 = (Inr y, w')"
  using assms by (auto simp: bindx_def split: prod.splits sum.splits)

section \<open>The diff engine counts what the specification names\<close>

lemma deletion_not_blank: "startswith ln ''*deleting '' \<Longrightarrow> strip ln \<noteq> []"
proof -
  assume "startswith ln ''*deleting ''"
  then obtain r where ln: "ln = CHR ''*'' # r"
    by (cases ln) (auto simp: startswith_def)
  have ns: "\<not> py_isspace CHR ''*''" by (simp add: py_isspace_def)
  have "dropWhile py_isspace ln = ln" using ln ns by simp
  moreover have "dropWhile py_isspace (rev ln) \<noteq> []"
    using ln ns by (auto simp: dropWhile_append)
  ultimately show ?thesis by (simp add: strip_def)
qed

lemma diff_line_counts:
  "diff_line ln (c, m, d, det) = (c', m', d', det') \<Longrightarrow>
     c' = c + (if spec_is_created ln then 1 else 0) \<and>
     m' = m + (if spec_is_modified ln then 1 else 0) \<and>
     d' = d + (if spec_is_deletion ln then 1 else 0)"
  using deletion_not_blank[of ln]
  by (auto simp: spec_is_created_def spec_is_modified_def spec_is_deletion_def spec_is_record_def
           split: if_splits prod.splits)

lemma fold_diff_line_counts:
  "fold diff_line lns (c, m, d, det) = (c', m', d', det') \<Longrightarrow>
     c' = c + length (filter spec_is_created lns) \<and>
     m' = m + length (filter spec_is_modified lns) \<and>
     d' = d + length (filter spec_is_deletion lns)"
proof (induction lns arbitrary: c m d det)
  case Nil
  then show ?case by simp
next
  case (Cons ln lns)
  obtain c1 m1 d1 det1 where step: "diff_line ln (c, m, d, det) = (c1, m1, d1, det1)"
    by (metis prod_cases4)
  with Cons.prems have "fold diff_line lns (c1, m1, d1, det1) = (c', m', d', det')" by simp
  from Cons.IH[OF this] diff_line_counts[OF step] show ?case by simp
qed

lemma diff_parse_counts:
  "diff_parse out = (c, m, d, det) \<Longrightarrow> c = spec_created out \<and> m = spec_modified out \<and> d = spec_deleted out"
  unfolding diff_parse_def spec_created_def spec_modified_def spec_deleted_def
  by (drule fold_diff_line_counts) simp

lemma rsync_diff_stats:
  assumes "rsync_diff S src dst w = (Inr (lines, stats), w')"
  shows "\<exists>proc. subprocess_run S (diff_cmd src dst) w = (Inr proc, w') \<and> \<not> rsync_fatal proc \<and>
           stats = (spec_created (stdout proc), spec_modified (stdout proc), spec_deleted (stdout proc))"
proof -
  from assms obtain proc w1 where run: "subprocess_run S (diff_cmd src dst) w = (Inr proc, w1)"
    and rest: "(if rsync_fatal proc then throw (Exn RuntimeError (DiffFailed (stderr_or_stdout proc)))
       else
         (case diff_parse (stdout proc) of
            (created, modified, deleted, detail_lines) \<Rightarrow>
              let summary_header = ''rsync dry-run diff '' @ display src @ '' -> '' @ display dst
              in ret (summary_header # replicate (length summary_header) CHR ''-'' # detail_lines,
                      (created, modified, deleted)))) w1 = (Inr (lines, stats), w')"
    unfolding rsync_diff_def by (erule bindx_Inr_elim)
  obtain c m d det where p: "diff_parse (stdout proc) = (c, m, d, det)" by (metis prod_cases4)
  from rest have nf: "\<not> rsync_fatal proc" by (auto simp: throw_def split: if_splits)
  from rest nf p have "w1 = w'" and "stats = (c, m, d)" by (auto simp: ret_def Let_def)
  with diff_parse_counts[OF p] run nf show ?thesis by auto
qed

section \<open>Claims about the drift diff engine\<close>

text \<open>
  Claim C7. Whenever \<open>compare\<close> returns a report, the report was computed from the
  output of one dry-run of the transfer utility, and on that output: the count of
  deleted files is the number of lines starting with \<open>*deleting \<close>, the count of created
  files is the number of itemize records whose code contains \<open>+++++++++\<close>, the count of
  modified files is the number of all other itemize records, and \<open>has_diff\<close> is true if
  and only if one of the three counts is not zero.
\<close>

theorem diff_classification:
  assumes "compare S cfg e1 e2 w = (Inr report, w')"
  shows "\<exists>ctx1 ctx2 proc w0 w1.
           ctx_of cfg e1 = Inr ctx1 \<and> ctx_of cfg e2 = Inr ctx2 \<and>
           subprocess_run S (diff_cmd ctx1 ctx2) w0 = (Inr proc, w1) \<and>
           take 3 (summary_lines report) =
             [Added (spec_created (stdout proc)), Modified (spec_modified (stdout proc)),
              Deleted (spec_deleted (stdout proc))] \<and>
           (has_diff report \<longleftrightarrow>
              spec_created (stdout proc) \<noteq> 0 \<or> spec_modified (stdout proc) \<noteq> 0 \<or> spec_deleted (stdout proc) \<noteq> 0)"
  using assms unfolding compare_def
  apply (auto simp: bindx_def lift_def ret_def Let_def split: prod.splits sum.splits dest!: rsync_diff_stats)
  apply blast+
  done

theorem diff_classification_witness:
  "compare (scripted (\<lambda>c. ok_result []) (\<lambda>a. ok_result three_changes)) two_envs ''a'' ''b'' () =
     (Inr three_changes_report, ())
   \<and> (\<exists>ctx1 ctx2 proc w0 w1.
           ctx_of two_envs ''a'' = Inr ctx1 \<and> ctx_of two_envs ''b'' = Inr ctx2 \<and>
           subprocess_run (scripted (\<lambda>c. ok_result []) (\<lambda>a. ok_result three_changes)) (diff_cmd ctx1 ctx2) w0
             = (Inr proc, w1) \<and>
           take 3 (summary_lines three_changes_report) =
             [Added (spec_created (stdout proc)), Modified (spec_modified (stdout proc)),
              Deleted (spec_deleted (stdout proc))] \<and>
           (has_diff three_changes_report \<longleftrightarrow>
              spec_created (stdout proc) \<noteq> 0 \<or> spec_modified (stdout proc) \<noteq> 0 \<or> spec_deleted (stdout proc) \<noteq> 0))"
proof -
  have h: "compare (scripted (\<lambda>c. ok_result []) (\<lambda>a. ok_result three_changes)) two_envs ''a'' ''b'' () =
     (Inr three_changes_report, ())"
    by code_simp
  show ?thesis by (rule conjI[OF h diff_classification[OF h]])
qed

section \<open>Claims about secrets\<close>

lemma startswith_append: "startswith (p @ s) p"
  by (simp add: startswith_def)

lemma encrypt_returns:
  assumes "lib_laws L" "key_usable L st" "p \<noteq> []"
  shows "\<exists>key b. utf8_encode L p = Inr b \<and> utf8_decode L b = Inr p \<and> fernet_valid_key L key \<and>
           get_or_create_key L st = (key, (snd (get_or_create_key L st))) \<and>
           key_file (snd (get_or_create_key L st)) = Some key \<and>
           encrypt L p st = (Inr (ENCRYPTED_PREFIX @ b64encode L (fernet_encrypt L key (draws st) b)),
                             (snd (get_or_create_key L st))\<lparr>draws := Suc (draws st)\<rparr>)"
proof -
  from assms(1) obtain b where b: "utf8_encode L p = Inr b" "utf8_decode L b = Inr p"
    unfolding lib_laws_def by blast
  obtain key st1 where g: "get_or_create_key L st = (key, st1)" by (cases "get_or_create_key L st")
  have v: "fernet_valid_key L key" and kf: "key_file st1 = Some key" and dr: "draws st1 = draws st"
    using g assms(1,2) by (auto simp: get_or_create_key_def key_usable_def lib_laws_def split: option.splits)
  show ?thesis using b g v kf dr assms(3) by (auto simp: encrypt_def)
qed

lemma plain_lib_laws: "lib_laws plain_lib"
  by (simp add: lib_laws_def plain_lib_def)

lemma no_key_usable: "key_usable plain_lib no_key"
  by (simp add: key_usable_def no_key_def)

text \<open>
  Claim C9, as it is stated, fails at the empty plaintext: \<open>encrypt\<close> returns the empty
  string for it, and \<open>is_encrypted\<close> of the empty string is false. Neither step
  reaches a library.
\<close>

theorem empty_secret_not_marked:
  "fst (encrypt plain_lib [] no_key) = Inr [] \<and> is_encrypted plain_lib [] = False"
  by (simp add: encrypt_def is_encrypted_def)

text \<open>
  Claim C9, amended. With libraries that invert (\<open>lib_laws\<close>) and a key file that is
  absent or holds a key Fernet accepts: \<open>encrypt\<close> returns, for every plaintext
  \<open>decrypt\<close> of its result is the plaintext, for every plaintext that is not empty the
  result is recognised by \<open>is_encrypted\<close>, and \<open>is_encrypted\<close> is false on every string of
  at most 50 characters that does not start with the prefix.
\<close>

theorem secret_round_trip:
  assumes "lib_laws L" and "key_usable L st"
  shows "\<exists>c st'. encrypt L p st = (Inr c, st') \<and>
           fst (decrypt L c st') = Inr p \<and>
           (p \<noteq> [] \<longrightarrow> is_encrypted L c) \<and>
           (\<forall>t. length t \<le> 50 \<and> \<not> startswith t ENCRYPTED_PREFIX \<longrightarrow> \<not> is_encrypted L t)"
proof -
  have short: "\<forall>t. length t \<le> 50 \<and> \<not> startswith t ENCRYPTED_PREFIX \<longrightarrow> \<not> is_encrypted L t"
    by (auto simp: is_encrypted_def split: sum.splits)
  show ?thesis
  proof (cases "p = []")
    case True
    then have "encrypt L p st = (Inr [], st)" "fst (decrypt L [] st) = Inr p"
      by (simp_all add: encrypt_def decrypt_def)
    with True short show ?thesis by auto
  next
    case False
    from encrypt_returns[OF assms False] obtain key b where
      b: "utf8_encode L p = Inr b" "utf8_decode L b = Inr p" and v: "fernet_valid_key L key"
      and kf: "key_file (snd (get_or_create_key L st)) = Some key"
      and e: "encrypt L p st = (Inr (ENCRYPTED_PREFIX @ b64encode L (fernet_encrypt L key (draws st) b)),
                             (snd (get_or_create_key L st))\<lparr>draws := Suc (draws st)\<rparr>)"
      by blast
    let ?c = "ENCRYPTED_PREFIX @ b64encode L (fernet_encrypt L key (draws st) b)"
    let ?st = "(snd (get_or_create_key L st))\<lparr>draws := Suc (draws st)\<rparr>"
    have g': "get_or_create_key L ?st = (key, ?st)" using kf by (simp add: get_or_create_key_def)
    have pne: "ENCRYPTED_PREFIX \<noteq> []" by (simp add: ENCRYPTED_PREFIX_def)
    have dec: "fernet_decrypt L key (fernet_encrypt L key (draws st) b) = Inr b"
      and b64: "b64decode L (b64encode L (fernet_encrypt L key (draws st) b)) = Inr (fernet_encrypt L key (draws st) b)"
      using assms(1) v unfolding lib_laws_def by auto
    have "fst (decrypt L ?c ?st) = Inr p"
      using pne g' v dec b64 b by (simp add: decrypt_def startswith_append Let_def)
    moreover have "is_encrypted L ?c" using pne by (simp add: is_encrypted_def startswith_append)
    ultimately show ?thesis using e short by blast
  qed
qed

theorem secret_round_trip_witness:
  "lib_laws plain_lib \<and> key_usable plain_lib no_key \<and>
   (\<exists>c st'. encrypt plain_lib ''s3cret'' no_key = (Inr c, st') \<and>
      fst (decrypt plain_lib c st') = Inr ''s3cret'' \<and> is_encrypted plain_lib c) \<and>
   \<not> is_encrypted plain_lib ''hunter2''"
proof -
  from secret_round_trip[OF plain_lib_laws no_key_usable, of "''s3cret''"]
  obtain c st' where r: "encrypt plain_lib ''s3cret'' no_key = (Inr c, st')"
      "fst (decrypt plain_lib c st') = Inr ''s3cret''"
      "''s3cret'' \<noteq> [] \<longrightarrow> is_encrypted plain_lib c"
      "\<forall>t. length t \<le> 50 \<and> \<not> startswith t ENCRYPTED_PREFIX \<longrightarrow> \<not> is_encrypted plain_lib t"
    by (elim exE conjE)
  from r(3) have m: "is_encrypted plain_lib c" by simp
  have sh: "length ''hunter2'' \<le> 50 \<and> \<not> startswith ''hunter2'' ENCRYPTED_PREFIX"
    by (simp add: startswith_def ENCRYPTED_PREFIX_def)
  have s: "\<not> is_encrypted plain_lib ''hunter2''"
    by (rule mp[OF spec[OF r(4), of "''hunter2''"] sh])
  from r(1,2) m have "\<exists>c st'. encrypt plain_lib ''s3cret'' no_key = (Inr c, st') \<and>
      fst (decrypt plain_lib c st') = Inr ''s3cret'' \<and> is_encrypted plain_lib c"
    by (intro exI conjI)
  with plain_lib_laws no_key_usable s show ?thesis by (intro conjI)
qed

section \<open>Claims about the structure scanner\<close>











section \<open>Claims about the sync orchestrator\<close>

lemma check_clean_target_dirty:
  assumes "ensure_repo S ctx w = (Inr (), wa)" and "status S ctx wa = (Inr st, w1)" and "dirty st"
  shows "check_clean_target S ctx w = (Inl (Exn RuntimeError (TargetDirty (display ctx) (take 10 (short_status st)))), w1)"
  using assms by (simp add: check_clean_target_def bindx_def throw_def)

lemma do_sync_fatal:
  assumes "subprocess_run S (do_sync_cmd src dst checksum excludes) w = (Inr proc, w')" and "rsync_fatal proc"
  shows "do_sync S src dst checksum excludes w = (Inl (Exn RuntimeError (SyncFailed (stderr_or_stdout proc))), w')"
  using assms by (simp add: do_sync_def bindx_def throw_def)

lemma verify_sync_mismatch:
  assumes "subprocess_run S (verify_cmd src dst excludes) w = (Inr proc, w')"
    and "diff_lines (stdout proc) \<noteq> []"
  shows "verify_sync S src dst excludes w = (Inr False, w')"
  using assms by (simp add: verify_sync_def bindx_def ret_def)

lemma check_clean_target_swallows:
  assumes "ensure_repo S ctx w = (Inr (), wa)" and "status S ctx wa = (Inl e, w1)" and "\<not> is_runtime_error e"
  shows "check_clean_target S ctx w = (Inr (), w1)"
  using assms by (simp add: check_clean_target_def bindx_def)

lemma verify_sync_returns:
  assumes "subprocess_run S (verify_cmd src dst excludes) w = (Inr proc, w')"
  shows "verify_sync S src dst excludes w = (Inr (\<not> rsync_fatal proc \<and> diff_lines (stdout proc) = []), w')"
  using assms by (simp add: verify_sync_def bindx_def ret_def)

lemma verify_sync_raises:
  assumes "subprocess_run S (verify_cmd src dst excludes) w = (Inl e, w')"
  shows "verify_sync S src dst excludes w = (Inl e, w')"
  using assms by (simp add: verify_sync_def bindx_def)

text \<open>
  The dirty check when the status query returns. With both environments configured,
  the structure scan of a code-only sync (if any) done and the strategy \<open>safe\<close>, a
  status of the target that is dirty makes \<open>sync\<close> return a failed result with the
  dirty-target error and the first ten status lines, without a checkpoint, and
  nothing is run after the status query.
\<close>

lemma dirty_status_aborts_sync:
  assumes "ctx_of cfg source_name = Inr ctx_src" and "ctx_of cfg target_name = Inr ctx_dst"
    and "scan_if_code_only S cfg source_name code_only_flag comps w = (Inr (excludes, kinds), w0)"
    and "ensure_repo S ctx_dst w0 = (Inr (), wa)"
    and "status S ctx_dst wa = (Inr st, w1)"
    and "dirty st"
  shows "sync S cfg source_name target_name ''safe'' backup verify auto_commit code_only_flag comps w =
     (Inr \<lparr> success = False, source = source_name, target = target_name, checkpoint = None,
            files_synced = 0, files_deleted = 0, verified = False, code_only = False,
            components_synced = [],
            error = Some (TargetDirty (display ctx_dst) (take 10 (short_status st))) \<rparr>, w1)"
  using assms(1,2,3) check_clean_target_dirty[OF assms(4,5,6)]
  by (simp add: sync_def sync_try_def check_if_safe_def)

text \<open>
  Claim C1 at a failing input. Both environments are configured, the strategy is
  \<open>safe\<close>, and the target is a repository with one modified file. The third command of
  the dirty check, the one that asks for the branch inside the status query, is not
  answered: running it raises \<open>OSError\<close>. \<open>_check_clean_target\<close> lets only a
  \<open>RuntimeError\<close> pass and takes every other exception for "the target is not a
  repository", so the check is skipped: \<open>sync\<close> creates the checkpoint, runs the
  transfer into the target and returns success. The status query asked again after
  the sync reports the modified file. \<open>_ensure_clean_target\<close> of the plain sync
  service, given the same answers, lets the exception leave and transfers nothing.
\<close>

theorem dirty_target_synced_after_error:
  "fst (sync (flaky_recording 2 dirty_shell (\<lambda>a. ok_result [])) two_envs ''a'' ''b'' ''safe'' True True False False None [])
     = Inr \<lparr> success = True, source = ''a'', target = ''b'', checkpoint = Some checkpoint_b,
             files_synced = 0, files_deleted = 0, verified = True, code_only = False,
             components_synced = [], error = None \<rparr> \<and>
   Process (do_sync_cmd ctx_a ctx_b True []) \<in>
     set (snd (sync (flaky_recording 2 dirty_shell (\<lambda>a. ok_result [])) two_envs ''a'' ''b'' ''safe'' True True False False None [])) \<and>
   fst (ensure_repo (flaky_recording 2 dirty_shell (\<lambda>a. ok_result [])) ctx_b []) = Inr () \<and>
   fst (status (flaky_recording 2 dirty_shell (\<lambda>a. ok_result [])) ctx_b [Shell (Git ''/srv/b'' RevParseIsInsideWorkTree)])
     = Inl (Exn OSError (Raised ''connection reset'')) \<and>
   fst (status (flaky_recording 2 dirty_shell (\<lambda>a. ok_result [])) ctx_b
          (snd (sync (flaky_recording 2 dirty_shell (\<lambda>a. ok_result [])) two_envs ''a'' ''b'' ''safe'' True True False False None [])))
     = Inr dirty_status \<and>
   dirty dirty_status \<and>
   ensure_clean_target (flaky_recording 2 dirty_shell (\<lambda>a. ok_result [])) ctx_b [] =
     (Inl (Exn OSError (Raised ''connection reset'')),
      [Shell (Git ''/srv/b'' RevParseIsInsideWorkTree), Shell (Git ''/srv/b'' RevParseIsInsideWorkTree),
       Shell (Git ''/srv/b'' RevParseAbbrevRefHead)])"
  by code_simp

theorem dirty_target_synced_after_error_witness:
  "fst (sync (flaky_recording 2 dirty_shell (\<lambda>a. ok_result [])) two_envs ''a'' ''b'' ''safe'' True True False False None [])
     = Inr \<lparr> success = True, source = ''a'', target = ''b'', checkpoint = Some checkpoint_b,
             files_synced = 0, files_deleted = 0, verified = True, code_only = False,
             components_synced = [], error = None \<rparr>"
  by (rule conjunct1[OF dirty_target_synced_after_error])

text \<open>
  Claim C3. When a checkpoint has been created and the transfer that follows exits
  with a code other than 0 and 23, \<open>sync\<close> returns a result with \<open>success = False\<close>, an
  error message and that checkpoint, and the outside world is left as the failed
  transfer left it: no restore is run.
\<close>

theorem failed_transfer_keeps_checkpoint:
  assumes "ctx_of cfg source_name = Inr ctx_src" and "ctx_of cfg target_name = Inr ctx_dst"
    and "scan_if_code_only S cfg source_name code_only_flag comps w = (Inr (excludes, kinds), w0)"
    and "check_if_safe S strategy ctx_dst w0 = (Inr u, w1)"
    and "create_checkpoint S ctx_dst w1 = (Inr cp, w2)"
    and "subprocess_run S (do_sync_cmd ctx_src ctx_dst (strategy = ''safe'') excludes) w2 = (Inr proc, w3)"
    and "rsync_fatal proc"
  shows "sync S cfg source_name target_name strategy True verify auto_commit code_only_flag comps w =
     (Inr \<lparr> success = False, source = source_name, target = target_name, checkpoint = Some cp,
            files_synced = 0, files_deleted = 0, verified = False, code_only = False,
            components_synced = [], error = Some (SyncFailed (stderr_or_stdout proc)) \<rparr>, w3)"
  using assms(1-5) do_sync_fatal[OF assms(6,7)]
  by (simp add: sync_def sync_try_def checkpoint_if_backup_def)

theorem failed_transfer_keeps_checkpoint_witness:
  "create_checkpoint (recording dirty_shell failing_transfer) ctx_b [] = (Inr checkpoint_b, checkpoint_trace) \<and>
   rsync_fatal (failed_result 12 ''io error'') \<and>
   sync (recording dirty_shell failing_transfer) two_envs ''a'' ''b'' ''force'' True True False False None [] =
     (Inr \<lparr> success = False, source = ''a'', target = ''b'', checkpoint = Some checkpoint_b,
            files_synced = 0, files_deleted = 0, verified = False, code_only = False,
            components_synced = [], error = Some (SyncFailed (stderr_or_stdout (failed_result 12 ''io error''))) \<rparr>,
      checkpoint_trace @ [Process (do_sync_cmd ctx_a ctx_b (''force'' = ''safe'') [])])"
proof -
  let ?S = "recording dirty_shell failing_transfer"
  have h1: "ctx_of two_envs ''a'' = Inr ctx_a" by code_simp
  have h2: "ctx_of two_envs ''b'' = Inr ctx_b" by code_simp
  have h3: "scan_if_code_only ?S two_envs ''a'' False None [] = (Inr ([], []), [])"
    by (simp add: scan_if_code_only_def)
  have h4: "check_if_safe ?S ''force'' ctx_b [] = (Inr (), [])"
    by (simp add: check_if_safe_def)
  have h5: "create_checkpoint ?S ctx_b [] = (Inr checkpoint_b, checkpoint_trace)"
    by code_simp
  have h6: "subprocess_run ?S (do_sync_cmd ctx_a ctx_b (''force'' = ''safe'') []) checkpoint_trace =
      (Inr (failed_result 12 ''io error''), checkpoint_trace @ [Process (do_sync_cmd ctx_a ctx_b (''force'' = ''safe'') [])])"
    by code_simp
  have h7: "rsync_fatal (failed_result 12 ''io error'')" by code_simp
  note r = failed_transfer_keeps_checkpoint[OF h1 h2 h3 h4 h5 h6 h7, of True False]
  show ?thesis by (intro conjI) (rule h5, rule h7, rule r)
qed

text \<open>
  Claim C4, as it is stated, fails when the verification pass cannot be run: the
  transfer has returned, the dry run raises, \<open>_verify_sync\<close> has no handler, and the
  handler of \<open>sync\<close> turns the exception into a failed result.
\<close>

theorem verification_not_run_fails_sync:
  "do_sync (no_dry_run_recording dirty_shell (\<lambda>a. ok_result [])) ctx_a ctx_b (''force'' = ''safe'') [] [] =
     (Inr (0, 0), [Process (do_sync_cmd ctx_a ctx_b (''force'' = ''safe'') [])]) \<and>
   sync (no_dry_run_recording dirty_shell (\<lambda>a. ok_result [])) two_envs ''a'' ''b'' ''force'' False True False False None [] =
     (Inr \<lparr> success = False, source = ''a'', target = ''b'', checkpoint = None,
            files_synced = 0, files_deleted = 0, verified = False, code_only = False,
            components_synced = [], error = Some (Raised ''rsync'') \<rparr>,
      [Process (do_sync_cmd ctx_a ctx_b (''force'' = ''safe'') []), Process (verify_cmd ctx_a ctx_b [])])"
  by code_simp

text \<open>
  Claim C4, amended. With the verify flag set, when the transfer has returned: if the
  verification pass runs to an exit, \<open>sync\<close> returns a result with \<open>success = True\<close>, and
  \<open>verified\<close> is true exactly when the exit code is 0 or 23 and no line other than blank
  lines and the \<open>building\<close> header remains; so a remaining difference line, and a fatal
  exit of the pass, give \<open>success = True\<close> with \<open>verified = False\<close>. If the pass cannot be
  run, \<open>sync\<close> returns the failed result with the exception's message and the
  checkpoint made so far.
\<close>

theorem verification_keeps_success:
  assumes "ctx_of cfg source_name = Inr ctx_src" and "ctx_of cfg target_name = Inr ctx_dst"
    and "scan_if_code_only S cfg source_name code_only_flag comps w = (Inr (excludes, kinds), w0)"
    and "check_if_safe S strategy ctx_dst w0 = (Inr u, w1)"
    and "checkpoint_if_backup S backup ctx_dst w1 = (Inr cp, w2)"
    and "do_sync S ctx_src ctx_dst (strategy = ''safe'') excludes w2 = (Inr (synced, deleted), w3)"
    and "subprocess_run S (verify_cmd ctx_src ctx_dst excludes) w3 = (r, w4)"
  shows "case r of
           Inr proc \<Rightarrow>
             (\<exists>w5. sync S cfg source_name target_name strategy backup True auto_commit code_only_flag comps w =
                (Inr \<lparr> success = True, source = source_name, target = target_name, checkpoint = cp,
                       files_synced = synced, files_deleted = deleted,
                       verified = (\<not> rsync_fatal proc \<and> diff_lines (stdout proc) = []),
                       code_only = code_only_flag, components_synced = kinds, error = None \<rparr>, w5))
         | Inl e \<Rightarrow>
             sync S cfg source_name target_name strategy backup True auto_commit code_only_flag comps w =
                (Inr \<lparr> success = False, source = source_name, target = target_name, checkpoint = cp,
                       files_synced = 0, files_deleted = 0, verified = False, code_only = False,
                       components_synced = [], error = Some (str_of_exn e) \<rparr>, w4)"
proof (cases r)
  case (Inl e)
  with assms(7) have "subprocess_run S (verify_cmd ctx_src ctx_dst excludes) w3 = (Inl e, w4)" by simp
  from assms(1-6) verify_sync_raises[OF this] Inl show ?thesis
    by (simp add: sync_def sync_try_def)
next
  case (Inr proc)
  with assms(7) have "subprocess_run S (verify_cmd ctx_src ctx_dst excludes) w3 = (Inr proc, w4)" by simp
  from assms(1-6) verify_sync_returns[OF this] Inr show ?thesis
    by (cases "auto_commit_target S ctx_dst (''Synced from '' @ source_name) w4")
       (simp add: sync_def sync_try_def)
qed

theorem verification_keeps_success_witness:
  "diff_lines (stdout (ok_result (''>fc.t...... app.py'' @ [CHR 0x0A]))) \<noteq> [] \<and>
   (\<exists>w5. sync (recording dirty_shell mismatch_transfer) two_envs ''a'' ''b'' ''force'' False True False False None [] =
     (Inr \<lparr> success = True, source = ''a'', target = ''b'', checkpoint = None,
            files_synced = 0, files_deleted = 0, verified = False, code_only = False,
            components_synced = [], error = None \<rparr>, w5)) \<and>
   rsync_fatal (failed_result 12 ''io error'') \<and>
   (\<exists>w5. sync (recording dirty_shell fatal_dry_run) two_envs ''a'' ''b'' ''force'' False True False False None [] =
     (Inr \<lparr> success = True, source = ''a'', target = ''b'', checkpoint = None,
            files_synced = 0, files_deleted = 0, verified = False, code_only = False,
            components_synced = [], error = None \<rparr>, w5))"
proof -
  let ?S = "recording dirty_shell mismatch_transfer"
  let ?T = "recording dirty_shell fatal_dry_run"
  let ?P = "ok_result (''>fc.t...... app.py'' @ [CHR 0x0A])"
  let ?Q = "failed_result 12 ''io error''"
  have h1: "ctx_of two_envs ''a'' = Inr ctx_a" by code_simp
  have h2: "ctx_of two_envs ''b'' = Inr ctx_b" by code_simp
  have h3: "scan_if_code_only ?S two_envs ''a'' False None [] = (Inr ([], []), [])"
    by (simp add: scan_if_code_only_def)
  have h4: "check_if_safe ?S ''force'' ctx_b [] = (Inr (), [])"
    by (simp add: check_if_safe_def)
  have h5: "checkpoint_if_backup ?S False ctx_b [] = (Inr None, [])"
    by (simp add: checkpoint_if_backup_def)
  have h6: "do_sync ?S ctx_a ctx_b (''force'' = ''safe'') [] [] =
      (Inr (0, 0), [Process (do_sync_cmd ctx_a ctx_b (''force'' = ''safe'') [])])"
    by code_simp
  have h7: "subprocess_run ?S (verify_cmd ctx_a ctx_b []) [Process (do_sync_cmd ctx_a ctx_b (''force'' = ''safe'') [])] =
      (Inr ?P,
       [Process (do_sync_cmd ctx_a ctx_b (''force'' = ''safe'') []), Process (verify_cmd ctx_a ctx_b [])])"
    by code_simp
  have h8: "diff_lines (stdout ?P) \<noteq> []" by code_simp
  have v: "(\<not> rsync_fatal ?P \<and> diff_lines (stdout ?P) = []) = False" by code_simp
  have k3: "scan_if_code_only ?T two_envs ''a'' False None [] = (Inr ([], []), [])"
    by (simp add: scan_if_code_only_def)
  have k4: "check_if_safe ?T ''force'' ctx_b [] = (Inr (), [])"
    by (simp add: check_if_safe_def)
  have k5: "checkpoint_if_backup ?T False ctx_b [] = (Inr None, [])"
    by (simp add: checkpoint_if_backup_def)
  have k6: "do_sync ?T ctx_a ctx_b (''force'' = ''safe'') [] [] =
      (Inr (0, 0), [Process (do_sync_cmd ctx_a ctx_b (''force'' = ''safe'') [])])"
    by code_simp
  have k7: "subprocess_run ?T (verify_cmd ctx_a ctx_b []) [Process (do_sync_cmd ctx_a ctx_b (''force'' = ''safe'') [])] =
      (Inr ?Q,
       [Process (do_sync_cmd ctx_a ctx_b (''force'' = ''safe'') []), Process (verify_cmd ctx_a ctx_b [])])"
    by code_simp
  have k8: "rsync_fatal ?Q" by code_simp
  have q: "(\<not> rsync_fatal ?Q \<and> diff_lines (stdout ?Q) = []) = False" by code_simp
  note r = verification_keeps_success[OF h1 h2 h3 h4 h5 h6 h7, of False, unfolded sum.case v]
  note t = verification_keeps_success[OF h1 h2 k3 k4 k5 k6 k7, of False, unfolded sum.case q]
  show ?thesis by (intro conjI) (rule h8, rule r, rule k8, rule t)
qed

section \<open>Claims about rollback\<close>

lemma fs_glob: "glob (fs_sys r) d pat w = (glob_files d pat w, w)"
  by (simp add: fs_sys_def)

lemma fs_read_text:
  "read_text (fs_sys r) p w =
     (case map_of (metas w) p of None \<Rightarrow> Inl (Exn OSError (Raised p)) | Some d \<Rightarrow> Inr d, w)"
  by (simp add: fs_sys_def)

lemma read_checkpoints_fs_state: "snd (read_checkpoints (fs_sys r) fs w) = w"
proof (induction fs)
  case Nil
  then show ?case by simp
next
  case (Cons f fs)
  obtain cps w2 where rest: "read_checkpoints (fs_sys r) fs w = (cps, w2)"
    by (cases "read_checkpoints (fs_sys r) fs w")
  with Cons.IH have "w2 = w" by simp
  with rest show ?case
    by (simp add: fs_read_text bindx_def lift_def split: option.splits sum.splits)
qed

lemma list_checkpoints_fs_state: "snd (list_checkpoints (fs_sys r) env w) = w"
proof -
  obtain cps w2 where rc: "read_checkpoints (fs_sys r)
      (glob_files (checkpoint_dir (fs_sys r)) (''checkpoint-'' @ env @ ''-*.json'') w) w = (cps, w2)"
    by (cases "read_checkpoints (fs_sys r)
      (glob_files (checkpoint_dir (fs_sys r)) (''checkpoint-'' @ env @ ''-*.json'') w) w")
  with read_checkpoints_fs_state[of r _ w] have "w2 = w" by (metis snd_conv)
  with rc show ?thesis by (simp add: list_checkpoints_def fs_glob)
qed

lemma rollback_try_not_string:
  assumes "\<forall>p. backup_path cp \<noteq> JStr p"
  shows "\<exists>e. rollback_try S ctx cp w1 = (Inl e, w1)"
  using assms by (cases "backup_path cp") (simp_all add: rollback_try_def bindx_def lift_def)

lemma rollback_try_not_run:
  assumes "backup_path cp = JStr backup"
    and "subprocess_run S (restore_cmd backup ctx) w1 = (Inl e, w2)"
  shows "rollback_try S ctx cp w1 = (Inl e, w2)"
  using assms by (simp add: rollback_try_def bindx_def lift_def)

lemma rollback_try_fatal:
  assumes "backup_path cp = JStr backup"
    and "subprocess_run S (restore_cmd backup ctx) w1 = (Inr proc, w2)"
    and "rsync_fatal proc"
  shows "rollback_try S ctx cp w1 = (Inl (Exn RuntimeError (RestoreFailed (stderr proc))), w2)"
  using assms by (simp add: rollback_try_def bindx_def lift_def throw_def)

lemma rollback_try_restored:
  assumes "backup_path cp = JStr backup"
    and "subprocess_run S (restore_cmd backup ctx) w1 = (Inr proc, w2)"
    and "code proc = 0"
  shows "\<exists>w3. rollback_try S ctx cp w1 = (Inr (), w3)"
  using assms
  by (cases "restore_commit S ctx (git_commit cp) w2")
     (simp add: rollback_try_def bindx_def lift_def ret_def rsync_fatal_def)

lemma rollback_of_try:
  assumes "ctx_of cfg target_name = Inr ctx"
    and "list_checkpoints S target_name w = (Inr cps, w1)"
    and "select_checkpoint cps cid = Some cp"
    and "rollback_try S ctx cp w1 = (r, w2)"
  shows "rollback S cfg target_name cid w = (Inr (\<not> isl r), w2)"
  using assms by (cases r) (simp_all add: rollback_def find_checkpoint_def bindx_def ret_def)

text \<open>
  Claim C5, as it is stated, fails in three ways. For a target name that is not
  configured, \<open>rollback\<close> looks the context up before its \<open>try\<close> block and the
  \<open>ValueError\<close> leaves it. For a configured target whose checkpoint records cannot be
  sorted (one timestamp is a number), the lookup of the checkpoint, also before the
  \<open>try\<close> block, raises \<open>TypeError\<close>. And a restore that fails without a fatal exit does
  not yield false: when the backup directory of the checkpoint is gone, the transfer
  utility exits with 23, which \<open>rollback\<close> accepts, and \<open>rollback\<close> returns true although
  the file of the environment is as it was.
\<close>

theorem rollback_raises_or_restores_nothing:
  "rollback (recording dirty_shell (\<lambda>a. ok_result [])) two_envs ''ghost'' None [] =
     (Inl (Exn ValueError (EnvNotConfigured ''ghost'')), []) \<and>
   fst (rollback (fs_sys python_repr) two_envs ''b'' None mistyped_world) = Inl (Exn TypeError BadValue) \<and>
   dirs missing_backup_world ''/home/u/.envsync/checkpoints/backup-b-20250101-000000'' = None \<and>
   fst (subprocess_run (fs_sys python_repr)
       (restore_cmd ''/home/u/.envsync/checkpoints/backup-b-20250101-000000'' ctx_b) missing_backup_world)
     = Inr (failed_result 23 ''no such directory'') \<and>
   file_at missing_backup_world ''/srv/b'' [''app.py''] = Some ''v2'' \<and>
   fst (rollback (fs_sys python_repr) two_envs ''b'' None missing_backup_world) = Inr True \<and>
   file_at (snd (rollback (fs_sys python_repr) two_envs ''b'' None missing_backup_world)) ''/srv/b'' [''app.py'']
     = Some ''v2''"
  by code_simp

text \<open>
  Claim C5, amended. For a configured target and a checkpoint listing that returns,
  \<open>rollback\<close> returns a boolean. The boolean is false when no checkpoint resolves, and
  when the restore raises: whatever exception leaves the body of the \<open>try\<close> block, in
  particular a backup path that is not a string, a transfer that cannot be run, and a
  transfer that exits with a code other than 0 and 23. The boolean is true when the
  restoring transfer exits with 0, whatever the reset to the captured revision does.
\<close>

theorem rollback_returns_boolean:
  assumes "ctx_of cfg target_name = Inr ctx"
    and "list_checkpoints S target_name w = (Inr cps, w1)"
  shows "\<exists>b w'. rollback S cfg target_name cid w = (Inr b, w') \<and>
     (select_checkpoint cps cid = None \<longrightarrow> \<not> b) \<and>
     (\<forall>cp e w2. select_checkpoint cps cid = Some cp \<and> rollback_try S ctx cp w1 = (Inl e, w2) \<longrightarrow> \<not> b) \<and>
     (\<forall>cp. select_checkpoint cps cid = Some cp \<and> (\<forall>p. backup_path cp \<noteq> JStr p) \<longrightarrow> \<not> b) \<and>
     (\<forall>cp backup e w2. select_checkpoint cps cid = Some cp \<and> backup_path cp = JStr backup \<and>
        subprocess_run S (restore_cmd backup ctx) w1 = (Inl e, w2) \<longrightarrow> \<not> b) \<and>
     (\<forall>cp backup proc w2. select_checkpoint cps cid = Some cp \<and> backup_path cp = JStr backup \<and>
        subprocess_run S (restore_cmd backup ctx) w1 = (Inr proc, w2) \<and> rsync_fatal proc \<longrightarrow> \<not> b) \<and>
     (\<forall>cp backup proc w2. select_checkpoint cps cid = Some cp \<and> backup_path cp = JStr backup \<and>
        subprocess_run S (restore_cmd backup ctx) w1 = (Inr proc, w2) \<and> code proc = 0 \<longrightarrow> b)"
proof (cases "select_checkpoint cps cid")
  case None
  then have "rollback S cfg target_name cid w = (Inr False, w1)" using assms
    by (simp add: rollback_def find_checkpoint_def bindx_def ret_def)
  with None show ?thesis by (intro exI[of _ False] exI[of _ w1]) simp
next
  case (Some cp)
  obtain r w2 where rt: "rollback_try S ctx cp w1 = (r, w2)" by (cases "rollback_try S ctx cp w1")
  have rb: "rollback S cfg target_name cid w = (Inr (\<not> isl r), w2)"
    by (rule rollback_of_try[OF assms Some rt])
  have a: "\<And>e w3. rollback_try S ctx cp w1 = (Inl e, w3) \<Longrightarrow> isl r"
    using rt by simp
  have b: "(\<forall>p. backup_path cp \<noteq> JStr p) \<Longrightarrow> isl r"
    using rollback_try_not_string[of cp S ctx w1] rt by auto
  have c: "\<And>backup e w3. backup_path cp = JStr backup \<Longrightarrow>
      subprocess_run S (restore_cmd backup ctx) w1 = (Inl e, w3) \<Longrightarrow> isl r"
    using rollback_try_not_run[of cp _ S ctx w1] rt by auto
  have d: "\<And>backup proc w3. backup_path cp = JStr backup \<Longrightarrow>
      subprocess_run S (restore_cmd backup ctx) w1 = (Inr proc, w3) \<Longrightarrow> rsync_fatal proc \<Longrightarrow> isl r"
    using rollback_try_fatal[of cp _ S ctx w1] rt by auto
  have e: "\<And>backup proc w3. backup_path cp = JStr backup \<Longrightarrow>
      subprocess_run S (restore_cmd backup ctx) w1 = (Inr proc, w3) \<Longrightarrow> code proc = 0 \<Longrightarrow> \<not> isl r"
    using rollback_try_restored[of cp _ S ctx w1] rt by fastforce
  show ?thesis
    using rb Some a b c d e by (intro exI[of _ "\<not> isl r"] exI[of _ w2]) auto
qed

theorem rollback_returns_boolean_witness:
  "ctx_of two_envs ''b'' = Inr ctx_b \<and>
   list_checkpoints (fs_sys python_repr) ''b'' restorable_world = (Inr [checkpoint_gone], restorable_world) \<and>
   fst (reset_hard (fs_sys python_repr) ctx_b ''gone'' restorable_world) =
     Inl (Exn RuntimeError (CommandFailed ''b'' ''unknown revision'')) \<and>
   (\<exists>w'. rollback (fs_sys python_repr) two_envs ''b'' None restorable_world = (Inr True, w'))"
proof -
  let ?S = "fs_sys python_repr"
  let ?cmd = "restore_cmd ''/home/u/.envsync/checkpoints/backup-b-20250101-000000'' ctx_b"
  have h1: "ctx_of two_envs ''b'' = Inr ctx_b" by code_simp
  have l: "fst (list_checkpoints ?S ''b'' restorable_world) = Inr [checkpoint_gone]"
    by code_simp
  have h2: "list_checkpoints ?S ''b'' restorable_world = (Inr [checkpoint_gone], restorable_world)"
    using l list_checkpoints_fs_state[of python_repr "''b''" restorable_world]
    by (cases "list_checkpoints ?S ''b'' restorable_world") simp
  have g: "fst (reset_hard ?S ctx_b ''gone'' restorable_world) =
     Inl (Exn RuntimeError (CommandFailed ''b'' ''unknown revision''))"
    by code_simp
  have s: "select_checkpoint [checkpoint_gone] None = Some checkpoint_gone" by code_simp
  have p: "backup_path checkpoint_gone = JStr ''/home/u/.envsync/checkpoints/backup-b-20250101-000000''"
    by code_simp
  have f: "fst (subprocess_run ?S ?cmd restorable_world) = Inr (ok_result [])" by code_simp
  have run: "subprocess_run ?S ?cmd restorable_world = (Inr (ok_result []), snd (subprocess_run ?S ?cmd restorable_world))"
    by (rule prod_eqI) (simp_all only: fst_conv snd_conv f)
  have z: "code (ok_result []) = 0" by code_simp
  from rollback_returns_boolean[OF h1 h2, of None]
  obtain b w' where rb: "rollback ?S two_envs ''b'' None restorable_world = (Inr b, w')"
    and ok: "\<forall>cp backup proc w2. select_checkpoint [checkpoint_gone] None = Some cp \<and> backup_path cp = JStr backup \<and>
        subprocess_run ?S (restore_cmd backup ctx_b) restorable_world = (Inr proc, w2) \<and> code proc = 0 \<longrightarrow> b"
    by (elim exE conjE)
  from ok have "select_checkpoint [checkpoint_gone] None = Some checkpoint_gone \<and>
        backup_path checkpoint_gone = JStr ''/home/u/.envsync/checkpoints/backup-b-20250101-000000'' \<and>
        subprocess_run ?S ?cmd restorable_world = (Inr (ok_result []), snd (subprocess_run ?S ?cmd restorable_world)) \<and>
        code (ok_result []) = 0 \<longrightarrow> b"
    by (elim allE)
  then have "b" using s p run z by (elim impE) (intro conjI)
  then have "b = True" by (rule eqTrueI[THEN eq_reflection, THEN meta_eq_to_obj_eq])
  with rb have r: "\<exists>w'. rollback ?S two_envs ''b'' None restorable_world = (Inr True, w')"
    by (intro exI[of _ w']) (simp only:)
  show ?thesis by (intro conjI) (rule h1, rule h2, rule g, rule r)
qed

section \<open>Claims about the checkpoint store\<close>

text \<open>
  Claim C10 at a failing input. The checkpoint directory holds two records of
  environment \<open>b\<close> that both parse and both have the fields of a checkpoint; one has its
  timestamp as a JSON number. \<open>list_checkpoints\<close> skips nothing and raises \<open>TypeError\<close>
  from \<open>sorted\<close>, which is outside the \<open>try\<close> block.
\<close>

theorem list_checkpoints_mistyped_raises:
  "fst (list_checkpoints (fs_sys python_repr) ''b'' mistyped_world) = Inl (Exn TypeError BadValue)"
  by code_simp

text \<open>
  Claim C6 at a failing input. Environments \<open>b\<close> and \<open>b-2\<close> have one checkpoint each. The
  pattern \<open>checkpoint-b-*.json\<close> matches the record of \<open>b-2\<close>, so the listing of \<open>b\<close> holds
  both, the younger one of \<open>b-2\<close> first. \<open>cleanup_checkpoints\<close> of \<open>b\<close> with \<open>keep = 1\<close> keeps
  that one and removes the only checkpoint of \<open>b\<close>, its backup directory included; with
  \<open>keep = 0\<close> it removes the backup directory of \<open>b-2\<close> and leaves the record, so the
  listing of \<open>b\<close> afterwards has length 1, not 0.
\<close>

theorem cleanup_foreign_checkpoint:
  "fst (list_checkpoints (fs_sys python_repr) ''b'' two_env_world) = Inr [checkpoint_of_b2, checkpoint_of_b] \<and>
   fst (cleanup_checkpoints (fs_sys python_repr) ''b'' 1 two_env_world) = Inr () \<and>
   fst (list_checkpoints (fs_sys python_repr) ''b'' (snd (cleanup_checkpoints (fs_sys python_repr) ''b'' 1 two_env_world)))
     = Inr [checkpoint_of_b2] \<and>
   dirs (snd (cleanup_checkpoints (fs_sys python_repr) ''b'' 1 two_env_world))
     ''/home/u/.envsync/checkpoints/backup-b-20250101-000000'' = None \<and>
   fst (list_checkpoints (fs_sys python_repr) ''b'' (snd (cleanup_checkpoints (fs_sys python_repr) ''b'' 0 two_env_world)))
     = Inr [checkpoint_of_b2] \<and>
   dirs (snd (cleanup_checkpoints (fs_sys python_repr) ''b'' 0 two_env_world))
     ''/home/u/.envsync/checkpoints/backup-b-2-20250103-000000'' = None"
  by code_simp

theorem list_checkpoints_mistyped_raises_witness:
  "isl (fst (list_checkpoints (fs_sys python_repr) ''b'' mistyped_world))"
  using list_checkpoints_mistyped_raises by simp

theorem cleanup_foreign_checkpoint_witness:
  "fst (list_checkpoints (fs_sys python_repr) ''b'' two_env_world) = Inr [checkpoint_of_b2, checkpoint_of_b]"
  by (rule conjunct1[OF cleanup_foreign_checkpoint])

section \<open>The checkpoint round trip\<close>




























end
